theory Spec2Isabelle
  imports Main "HOL-Library.Monad_Syntax" "HOL-Library.Multiset"
begin

section \<open>JavaScript built-ins used by the scripts\<close>

text \<open>
  Strings are lists of characters. The address, topic and data strings the scripts handle
  are ASCII; \<open>toLowerCase\<close> and \<open>toUpperCase\<close> are modelled on the ASCII letters
  and leave every other character alone. Theorems that depend on how the two functions
  interact are stated for ASCII strings only.
\<close>

definition toLowerCase_char :: "char \<Rightarrow> char" where
  "toLowerCase_char c =
     (let n = (of_char c :: nat) in if 65 \<le> n \<and> n \<le> 90 then char_of (n + 32) else c)"

definition toUpperCase_char :: "char \<Rightarrow> char" where
  "toUpperCase_char c =
     (let n = (of_char c :: nat) in if 97 \<le> n \<and> n \<le> 122 then char_of (n - 32) else c)"

definition toLowerCase :: "string \<Rightarrow> string" where
  "toLowerCase s = map toLowerCase_char s"

definition toUpperCase :: "string \<Rightarrow> string" where
  "toUpperCase s = map toUpperCase_char s"

definition is_ascii :: "string \<Rightarrow> bool" where
  "is_ascii s = list_all (\<lambda>c. (of_char c :: nat) < 128) s"

text \<open>
  \<open>Array.prototype.slice(start, end)\<close> and \<open>String.prototype.slice\<close>: a negative
  index counts from the end, both indices are clamped to the length, and an empty result
  is returned when the clamped start is not below the clamped end.
\<close>

definition js_slice :: "int \<Rightarrow> int \<Rightarrow> 'a list \<Rightarrow> 'a list" where
  "js_slice start end xs =
     (let len = int (length xs);
          from = (if start < 0 then max (len + start) 0 else min start len);
          to = (if end < 0 then max (len + end) 0 else min end len)
      in take (nat (to - from)) (drop (nat from) xs))"

definition js_slice_from :: "int \<Rightarrow> 'a list \<Rightarrow> 'a list" where
  "js_slice_from start xs = js_slice start (int (length xs)) xs"

text \<open>
  A call either returns a value or throws an \<open>Error\<close> with a message.
\<close>

datatype 'a outcome = Returned 'a | Thrown string

text \<open>\<open>String.prototype.includes\<close>: the argument occurs somewhere in the string.\<close>

fun js_includes :: "string \<Rightarrow> string \<Rightarrow> bool" where
  "js_includes [] sub = (sub = [])"
| "js_includes (c # cs) sub = (take (length sub) (c # cs) = sub \<or> js_includes cs sub)"

section \<open>DelegatorFilter: classification against the static address lists\<close>

datatype addr_type = Exchange | Defi | Institutional | Individual | Unknown

record classification =
  isExchangeOrDefi :: bool
  type :: addr_type
  source :: string
  confidence :: "string option"

text \<open>The two sets built by the constructor, entry for entry (duplicates included).\<close>

definition knownExchangeAddresses :: "string set" where
  "knownExchangeAddresses = set [
    ''0x5e3346444010135322268a0ca24b70e5b1d0d52a'',
    ''0x6cc5f688a315f3dc28a7781717a9a798a59fda7b'',
    ''0x46340b20830761efd32832a74d7169b29feb9758'',
    ''0x28c6c06298d514db089934071355e5743bf21d60'',
    ''0x21a31ee1afc51d94c2efccaa2092ad1028285549'',
    ''0xdfd5293d8e347dfe59e90efd55b2956a1343963d'',
    ''0x56eddb7aa87536c09ccc2793473599fd21a8b17f'',
    ''0x9696f59e4d72e237be84ffd425dcad154bf96976'',
    ''0x4e9ce36e442e55ecd9025b9a6e0d88485d628a67'',
    ''0xbe0eb53f46cd790cd13851d5eff43d12404d33e8'',
    ''0xf977814e90da44bfa03b6295a0616a897441acec'',
    ''0x001866ae5b3de6caa5a51543fd9fb64f524f5478'',
    ''0x85b931a32a0725be14285b66f1a22178c672d69b'',
    ''0x708396f17127c42383e3b9014072679b2f60b82f'',
    ''0xe0f0cfde7ee664943906f17f7f14342e76a5cec7'',
    ''0x8f22f2063d253846b53609231ed80fa571bc0c8f'',
    ''0x28c6c06298d514db089934071355e5743bf21d60'',
    ''0x3f5ce5fbfe3e9af3971dd833d26ba9b5c936f0be'',
    ''0xd551234ae421e3bcba99a0da6d736074f22192ff'',
    ''0x564286362092d8e7936f0549571a803b203aaced'',
    ''0x0681d8db095565fe8a346fa0277bffde9c0edbbf'',
    ''0x4e68ccd3e89f51c3074ca5072bbac773960dfa36'',
    ''0x7ee9f7b851fb9c8c2f8bfd7b49cc74b68f48f3a6'',
    ''0x2b5634c42055806a59e9107ed44d43c426e58258'',
    ''0x689c56aef474df92d44a1b70850f808488f9769c'',
    ''0xa1d8d972560c2f8144af871db508f0b0b10a3fbf'',
    ''0x1692e170361cefd1eb7240ec13d048fd9af6d667'',
    ''0xd6216fc19db775df9774a6e33526131da7d19a2c'',
    ''0xcdd7c759e0b140f7e6508fc00da24733cb43ce2b'',
    ''0x1c4b70a3968436b9a0a9cf5205c787eb81bb558c'',
    ''0x503828976d22510aad0201ac7ec88293211d23da'',
    ''0x61edcdf5bb737adffe5043706e7332c5807a70af'',
    ''0xab5c66752a9e8167967685f1450532fb96d5d24f'',
    ''0x5861b8446a2f6e19a067874c133f04c578928727'',
    ''0x926fc576b7facf6ae2d08ee2d4734c134a99f584'',
    ''0x18916e1a2933cb349145a667390d3a915be5fad7'',
    ''0x6748f50f686bfbca6fe8ad62b22228b87f31ff2b'',
    ''0x90e9a4a7bf87b8b9ce5e0994db2a77e65ff6e780'',
    ''0xeee28d484628d41a82d01e21d12e2e78d69920da'',
    ''0xcafb10ee663f465f9d10588ac44ed20ed608c11e'',
    ''0x876eabf441b2ee5b5b0554fd502a8e0600950cfa'',
    ''0xdac17f958d2ee523a2206206994597c13d831ec7'',
    ''0x4fabb145d64652a948d72533023f6e7a623c7c53'',
    ''0x1151314c646ce4e0efd76d1af4760ae66a9fe30f'',
    ''0x7727e5113d1d161373623e5f49fd568b4f543a9e'',
    ''0xc61b9bb3a7a0767e3179713f3a5c7a9aedce193c'',
    ''0xa9d1e08c7793af67e9d92fe308d5697fb81d3e43'',
    ''0x77696bb39917c91a0c3908d577d5e322095425ca'',
    ''0x503828976d22510aad0201ac7ec88293211d23da'',
    ''0xddfabcdc4d8ffc6d5beaf154f18b778f892a0740'',
    ''0x3cd751e6b0078be393132286c442345e5dc49699'',
    ''0xb5d85cbf7cb3ee0d56b3bb207d5fc4b82f43f511'',
    ''0xeb2629a2734e272bcc07bda959863f316f4bd4cf'',
    ''0xd688aea8f7d450909ade10c47faa95707b0682d9'',
    ''0x02466e547bfdab679fc49e5041ff6af2765c91a1'',
    ''0x6b76f8b1e9e59913bfe758821887311ba1805cab'',
    ''0x8b4de256180cfec54c436a470af50f9ee2813dbb'',
    ''0xcffad3200574698b78f32232aa9d63eabd290703'']"

definition knownDefiAddresses :: "string set" where
  "knownDefiAddresses = set [
    ''0x8f3cf7ad23cd3cadbd9735aff958023239c6a063'',
    ''0x0d500b1d8e8ef31e21c99d1db9a6444d3adf1270'',
    ''0x7ceb23fd6f88a99bb5e7e5ed51d11ac5b1e2d0cd'',
    ''0x794a61358d6845594f94dc1db02a252b5b4814ad'',
    ''0x1a13f4ca1d028320a707d99520abfefca3998b7f'',
    ''0x8dff5e27ea6b7ac08ebfdf9eb090f32ee9a30fcf'',
    ''0xa3fa99a148fa48d14ed51d610c367c61876997f1'',
    ''0x5a6a4d54456819c5ba4bacc9a8f0bc37c9eb0ecc'',
    ''0x8e32fe11b35db68c10326c8b3e5c5b99f5b90e5c'',
    ''0x47bb542b9de58b970ba50c9dae444ddb4c16751a'',
    ''0x5757371414417b8c6caad45baef941abc7d3ab32'',
    ''0x8dff5e27ea6b7ac08ebfdf9eb090f32ee9a30fcf'',
    ''0xa5e0829caced8ffdd4de3c43696c57f7d7a678ff'',
    ''0x68b3465833fb72a70ecdf485e0e4c7bd8665fc45'',
    ''0xe592427a0aece92de3edee1f18e0157c05861564'',
    ''0x1f98431c8ad98523631ae4a59f267346ea31f984'',
    ''0x0169ec1f8f639b32eec6d923e24c2a2ff45b9dd6'',
    ''0x1b02da8cb0d097eb8d57a175b88c7d8b47997506'',
    ''0xc0788a3ad43d79aa53c09c2cc9db92b73d4c24a6'',
    ''0xdef1c0ded9bec7f1a1670819833240f027b25eff'',
    ''0x61935cbdd02287b511119ddb11aeb42f1593b7ef'',
    ''0x5f4ec3df9cbd43714fe2740f5e3616155c5b8419'',
    ''0xab594600376ec9fd91f8e885dadf0ce036862de0'',
    ''0x9aa7fec87ca69695dd1f879567ccf49eeb6c04e8'',
    ''0xba12222222228d8ba445958a75a0704d566bf2c8'',
    ''0x4e65fe4dba92790696d040ac24aa414708f5c0ab'',
    ''0x401f6c983ea34274ec46f84d70b31c151321188b'',
    ''0xa0c68c638235ee32657e8f720a23cec1bfc77c77'',
    ''0x8484ef722627bf18ca5ae6bcf031c23e6e922b30'']"

text \<open>The memo \<open>addressClassificationCache\<close>: a \<open>Map\<close> from lower-cased address to result.\<close>

type_synonym cache = "string \<rightharpoonup> classification"

definition isKnownExchangeOrDefi :: "string \<Rightarrow> bool" where
  "isKnownExchangeOrDefi address =
     (let addressLower = toLowerCase address
      in addressLower \<in> knownExchangeAddresses \<or> addressLower \<in> knownDefiAddresses)"

text \<open>
  \<open>classifyAddressBasic\<close> reads and writes the cache, so it takes the cache and returns
  the result together with the updated cache.
\<close>

definition classifyAddressBasic :: "cache \<Rightarrow> string \<Rightarrow> classification \<times> cache" where
  "classifyAddressBasic cache address =
     (let addressLower = toLowerCase address in
      case cache addressLower of
        Some cached \<Rightarrow> (cached, cache)
      | None \<Rightarrow>
          if isKnownExchangeOrDefi address then
            (let result = \<lparr> isExchangeOrDefi = True,
                             type = (if addressLower \<in> knownExchangeAddresses then Exchange else Defi),
                             source = ''local'',
                             confidence = Some ''high'' \<rparr>
             in (result, cache(addressLower \<mapsto> result)))
          else
            (let defaultResult = \<lparr> isExchangeOrDefi = False,
                                    type = Individual,
                                    source = ''default'',
                                    confidence = Some ''low'' \<rparr>
             in (defaultResult, cache(addressLower \<mapsto> defaultResult))))"

text \<open>
  A \<open>DelegatorFilter\<close> starts with an empty cache and only \<open>classifyAddressBasic\<close>
  writes to it, so the caches the object can hold are those reached from the empty one by
  a sequence of earlier classifications.
\<close>

definition cacheAfter :: "string list \<Rightarrow> cache" where
  "cacheAfter earlier = fold (\<lambda>a c. snd (classifyAddressBasic c a)) earlier Map.empty"

subsection \<open>filterDelegatorAddresses\<close>

record filter_options =
  excludeExchanges :: bool
  excludeDefi :: bool
  excludeInstitutional :: bool
  maxConcurrency :: int

text \<open>The defaults of the destructured \<open>options\<close> argument.\<close>

definition default_options :: filter_options where
  "default_options = \<lparr> excludeExchanges = True, excludeDefi = True,
                        excludeInstitutional = True, maxConcurrency = 5 \<rparr>"

text \<open>
  An entry pushed to one of the \<open>filteredOut\<close> lists carries the address, the name of the
  classification (a field that the results of \<open>classifyAddressBasic\<close> do not have, so it
  is undefined) and its source.
\<close>

record filtered_entry =
  fe_address :: string
  fe_name :: "string option"
  fe_source :: string

record filtered_out =
  exchanges :: "filtered_entry list"
  defi :: "filtered_entry list"
  institutional :: "filtered_entry list"
  unknown :: "(string \<times> classification) list"

record filter_results =
  individualDelegators :: "(string \<times> classification) list"
  filteredOut :: filtered_out

definition empty_results :: filter_results where
  "empty_results = \<lparr> individualDelegators = [],
     filteredOut = \<lparr> exchanges = [], defi = [], institutional = [], unknown = [] \<rparr> \<rparr>"

text \<open>
  The loop that cuts the addresses into batches. With a batch size of zero or less the
  index never reaches the length and the loop does not end, so the function is partial.
\<close>

partial_function (option) makeBatches ::
  "int \<Rightarrow> int \<Rightarrow> string list \<Rightarrow> string list list \<Rightarrow> string list list option" where
  [code]: "makeBatches i batchSize addresses batches =
     (if i < int (length addresses)
      then makeBatches (i + batchSize) batchSize addresses
             (batches @ [js_slice i (i + batchSize) addresses])
      else Some batches)"

text \<open>
  The promises of one batch: \<open>classifyAddressBasic\<close> has no suspension point, so each
  call runs to its end, in the order of the batch, before the next one starts.
\<close>

fun classifyBatch :: "cache \<Rightarrow> string list \<Rightarrow> (string \<times> classification) list \<times> cache" where
  "classifyBatch cache [] = ([], cache)"
| "classifyBatch cache (address # rest) =
     (let (classification, cache1) = classifyAddressBasic cache address;
          (others, cache2) = classifyBatch cache1 rest
      in ((address, classification) # others, cache2))"

text \<open>The chain of tests applied to each result of a batch.\<close>

definition processResult ::
  "filter_options \<Rightarrow> filter_results \<Rightarrow> string \<times> classification \<Rightarrow> filter_results" where
  "processResult opts results ac =
     (let address = fst ac; classification = snd ac;
          entry = \<lparr> fe_address = address, fe_name = None, fe_source = source classification \<rparr>;
          out = filteredOut results
      in if type classification = Exchange \<and> excludeExchanges opts then
           results\<lparr> filteredOut := out\<lparr> exchanges := exchanges out @ [entry] \<rparr> \<rparr>
         else if type classification = Defi \<and> excludeDefi opts then
           results\<lparr> filteredOut := out\<lparr> defi := defi out @ [entry] \<rparr> \<rparr>
         else if type classification = Institutional \<and> excludeInstitutional opts then
           results\<lparr> filteredOut := out\<lparr> institutional := institutional out @ [entry] \<rparr> \<rparr>
         else if type classification = Individual \<or>
                 (\<not> excludeExchanges opts \<and> type classification = Exchange) \<or>
                 (\<not> excludeDefi opts \<and> type classification = Defi) \<or>
                 (\<not> excludeInstitutional opts \<and> type classification = Institutional) then
           results\<lparr> individualDelegators := individualDelegators results @ [(address, classification)] \<rparr>
         else
           results\<lparr> filteredOut := out\<lparr> unknown := unknown out @ [(address, classification)] \<rparr> \<rparr>)"

fun processBatches ::
  "filter_options \<Rightarrow> cache \<Rightarrow> filter_results \<Rightarrow> string list list \<Rightarrow> filter_results \<times> cache" where
  "processBatches opts cache results [] = (results, cache)"
| "processBatches opts cache results (batch # rest) =
     (let (batchResults, cache1) = classifyBatch cache batch
      in processBatches opts cache1 (foldl (processResult opts) results batchResults) rest)"

text \<open>
  The counters of \<open>results.statistics\<close>, the progress callback, the console output and
  the pauses between batches have no effect on the lists and are left out.
\<close>

definition filterDelegatorAddresses ::
  "cache \<Rightarrow> string list \<Rightarrow> filter_options \<Rightarrow> (filter_results \<times> cache) option" where
  "filterDelegatorAddresses cache addresses opts =
     (let batchSize = min (maxConcurrency opts) 10
      in case makeBatches 0 batchSize addresses [] of
           None \<Rightarrow> None
         | Some batches \<Rightarrow> Some (processBatches opts cache empty_results batches))"

text \<open>
  Auxiliary notions for the proofs: the result that the static lists give for a lower-cased
  address, and the caches all of whose entries are such results.
\<close>

definition staticResult :: "string \<Rightarrow> classification" where
  "staticResult addressLower =
     (if addressLower \<in> knownExchangeAddresses then
        \<lparr> isExchangeOrDefi = True, type = Exchange, source = ''local'', confidence = Some ''high'' \<rparr>
      else if addressLower \<in> knownDefiAddresses then
        \<lparr> isExchangeOrDefi = True, type = Defi, source = ''local'', confidence = Some ''high'' \<rparr>
      else
        \<lparr> isExchangeOrDefi = False, type = Individual, source = ''default'', confidence = Some ''low'' \<rparr>)"

definition cache_static :: "cache \<Rightarrow> bool" where
  "cache_static c = (\<forall>k. c k = None \<or> c k = Some (staticResult k))"

section \<open>EthereumDelegationTracker: formatting and decoding\<close>

subsection \<open>BigInt to decimal string\<close>

text \<open>
  A \<open>BigInt\<close> is an unbounded integer, modelled by \<open>int\<close>. \<open>toString\<close> writes it in
  decimal, with a minus sign when it is negative.
\<close>

definition digit_char :: "int \<Rightarrow> char" where
  "digit_char d = char_of (48 + d)"

function toString_digits :: "int \<Rightarrow> string" where
  "toString_digits n =
     (if n < 10 then [digit_char n] else toString_digits (n div 10) @ [digit_char (n mod 10)])"
  by pat_completeness auto
termination
  by (relation "measure nat") auto

declare toString_digits.simps [simp del]

definition toString :: "int \<Rightarrow> string" where
  "toString v = (if v < 0 then CHR ''-'' # toString_digits (- v) else toString_digits v)"

definition padStart :: "nat \<Rightarrow> char \<Rightarrow> string \<Rightarrow> string" where
  "padStart targetLength c s = replicate (targetLength - length s) c @ s"

text \<open>The replacement \<open>replace(/0+$/, '')\<close>: the longest run of zeros at the end is removed.\<close>

definition trimTrailingZeros :: "string \<Rightarrow> string" where
  "trimTrailingZeros s = rev (dropWhile (\<lambda>c. c = CHR ''0'') (rev s))"

definition formatUnits :: "int \<Rightarrow> nat \<Rightarrow> string" where
  "formatUnits value decimals =
     (let negative = value < 0;
          val = (if negative then - value else value);
          base = 10 ^ decimals;
          integer = val div base;
          fraction = val mod base;
          fracStr = padStart decimals CHR ''0'' (toString fraction);
          fracStr = trimTrailingZeros fracStr
      in (if negative then ''-'' else '''') @ toString integer @
         (if fracStr \<noteq> [] then ''.'' @ fracStr else ''''))"

text \<open>
  The reading back that the specification describes, which the repository does not
  contain: the text before the point is the integer part, the text after it, padded on the
  right with zeros to the number of decimals, is the fractional part, and the value is
  integer part times ten to the decimals plus fractional part.
\<close>

definition digit_value :: "char \<Rightarrow> int" where
  "digit_value c = of_char c - 48"

definition spec_parseDecimal :: "string \<Rightarrow> int" where
  "spec_parseDecimal s = foldl (\<lambda>acc c. 10 * acc + digit_value c) 0 s"

definition padEnd :: "nat \<Rightarrow> char \<Rightarrow> string \<Rightarrow> string" where
  "padEnd targetLength c s = s @ replicate (targetLength - length s) c"

definition spec_integerPart :: "string \<Rightarrow> string" where
  "spec_integerPart s = takeWhile (\<lambda>c. c \<noteq> CHR ''.'') s"

definition spec_fractionalPart :: "string \<Rightarrow> string" where
  "spec_fractionalPart s = drop 1 (dropWhile (\<lambda>c. c \<noteq> CHR ''.'') s)"

definition spec_parseUnits :: "string \<Rightarrow> nat \<Rightarrow> int" where
  "spec_parseUnits s decimals =
     spec_parseDecimal (spec_integerPart s) * 10 ^ decimals +
     spec_parseDecimal (padEnd decimals CHR ''0'' (spec_fractionalPart s))"

subsection \<open>Numbers and literals\<close>

text \<open>
  The numbers that \<open>parseInt\<close> produces here are integers or \<open>NaN\<close>. They are kept as
  exact integers: a JavaScript number is a double and is exact only up to \<open>2^53\<close>, a
  rounding that no statement below depends on.
\<close>

datatype jsnumber = NaN | Number int

definition js_truthy :: "jsnumber \<Rightarrow> bool" where
  "js_truthy n = (case n of NaN \<Rightarrow> False | Number v \<Rightarrow> v \<noteq> 0)"

definition js_less :: "jsnumber \<Rightarrow> jsnumber \<Rightarrow> bool" where
  "js_less a b = (case (a, b) of (Number x, Number y) \<Rightarrow> x < y | _ \<Rightarrow> False)"

definition js_minus :: "jsnumber \<Rightarrow> jsnumber \<Rightarrow> jsnumber" where
  "js_minus a b = (case (a, b) of (Number x, Number y) \<Rightarrow> Number (x - y) | _ \<Rightarrow> NaN)"

definition js_times :: "jsnumber \<Rightarrow> jsnumber \<Rightarrow> jsnumber" where
  "js_times a b = (case (a, b) of (Number x, Number y) \<Rightarrow> Number (x * y) | _ \<Rightarrow> NaN)"

text \<open>White space of the ASCII range: tab, line feed, vertical tab, form feed, return, space.\<close>

definition is_whitespace :: "char \<Rightarrow> bool" where
  "is_whitespace c = ((of_char c :: nat) \<in> {9, 10, 11, 12, 13, 32})"

definition js_trim :: "string \<Rightarrow> string" where
  "js_trim s = rev (dropWhile is_whitespace (rev (dropWhile is_whitespace s)))"

text \<open>The value of a character as a digit; 99 for a character that is no digit in any radix.\<close>

definition digitValue :: "char \<Rightarrow> int" where
  "digitValue c =
     (let n = (of_char c :: int) in
      if 48 \<le> n \<and> n \<le> 57 then n - 48
      else if 97 \<le> n \<and> n \<le> 102 then n - 87
      else if 65 \<le> n \<and> n \<le> 70 then n - 55
      else 99)"

definition digitsValue :: "int \<Rightarrow> string \<Rightarrow> int" where
  "digitsValue radix s = foldl (\<lambda>acc c. radix * acc + digitValue c) 0 s"

definition parseDigits :: "int \<Rightarrow> string \<Rightarrow> int option" where
  "parseDigits radix s =
     (if s \<noteq> [] \<and> list_all (\<lambda>c. digitValue c < radix) s then Some (digitsValue radix s)
      else None)"

text \<open>
  \<open>BigInt(string)\<close>: white space around the literal is ignored, the empty string is
  zero, a literal is a decimal integer with an optional sign or an unsigned binary, octal
  or hexadecimal integer with its prefix; anything else throws a \<open>SyntaxError\<close>.
\<close>

definition BigInt :: "string \<Rightarrow> int outcome" where
  "BigInt s =
     (let t = js_trim s in
      if t = [] then Returned 0
      else case (if take 2 t = ''0x'' \<or> take 2 t = ''0X'' then parseDigits 16 (drop 2 t)
                 else if take 2 t = ''0o'' \<or> take 2 t = ''0O'' then parseDigits 8 (drop 2 t)
                 else if take 2 t = ''0b'' \<or> take 2 t = ''0B'' then parseDigits 2 (drop 2 t)
                 else if take 1 t = ''-'' then map_option uminus (parseDigits 10 (drop 1 t))
                 else if take 1 t = ''+'' then parseDigits 10 (drop 1 t)
                 else parseDigits 10 t) of
             Some v \<Rightarrow> Returned v
           | None \<Rightarrow> Thrown (''SyntaxError: Cannot convert '' @ s @ '' to a BigInt''))"

text \<open>
  \<open>parseInt(string, 16)\<close>: leading white space, a sign and a \<open>0x\<close> prefix are skipped,
  the longest run of hexadecimal digits is read, and the result is \<open>NaN\<close> when there is
  none. It never throws.
\<close>

definition parseInt16 :: "string \<Rightarrow> jsnumber" where
  "parseInt16 s =
     (let t = dropWhile is_whitespace s;
          negative = (take 1 t = ''-'');
          t1 = (if take 1 t = ''-'' \<or> take 1 t = ''+'' then drop 1 t else t);
          t2 = (if take 2 t1 = ''0x'' \<or> take 2 t1 = ''0X'' then drop 2 t1 else t1);
          digits = takeWhile (\<lambda>c. digitValue c < 16) t2
      in if digits = [] then NaN
         else Number ((if negative then - 1 else 1) * digitsValue 16 digits))"

text \<open>
  \<open>Array.prototype.sort(compare)\<close> is stable. The model inserts the elements one by
  one, in their original order, each after the elements it does not compare below;
  \<open>below a b\<close> stands for \<open>compare(a, b) < 0\<close>. For a consistent comparison this is
  the order the language prescribes.
\<close>

fun js_insert :: "('a \<Rightarrow> 'a \<Rightarrow> bool) \<Rightarrow> 'a \<Rightarrow> 'a list \<Rightarrow> 'a list" where
  "js_insert below x [] = [x]"
| "js_insert below x (y # ys) = (if below x y then x # y # ys else y # js_insert below x ys)"

definition js_sort :: "('a \<Rightarrow> 'a \<Rightarrow> bool) \<Rightarrow> 'a list \<Rightarrow> 'a list" where
  "js_sort below xs = foldl (\<lambda>sorted x. js_insert below x sorted) [] xs"

subsection \<open>processDelegationEvents\<close>

text \<open>
  A log as the Etherscan API returns it. \<open>log_timeStamp\<close> is \<open>None\<close> when the field is
  not a string; \<open>log_topics\<close> may have any length.
\<close>

record raw_log =
  log_timeStamp :: "string option"
  log_blockNumber :: string
  log_topics :: "string list"
  log_data :: string
  log_transactionHash :: string

record delegation_event =
  ev_validatorId :: jsnumber
  ev_user :: string
  ev_amountWei :: string
  ev_amountPol :: string
  ev_blockNumber :: jsnumber
  ev_transactionHash :: string
  ev_timestamp :: jsnumber
  ev_parsedTime :: jsnumber
  ev_eventType :: string
  ev_source :: string

text \<open>
  Reading an element of an array: \<open>undefined\<close> beyond the end. \<open>parseInt\<close> turns
  \<open>undefined\<close> into the string \<open>undefined\<close>; calling \<open>slice\<close> on it throws a
  \<open>TypeError\<close>.
\<close>

definition js_index :: "'a list \<Rightarrow> nat \<Rightarrow> 'a option" where
  "js_index xs i = (if i < length xs then Some (xs ! i) else None)"

definition js_string :: "string option \<Rightarrow> string" where
  "js_string v = (case v of None \<Rightarrow> ''undefined'' | Some s \<Rightarrow> s)"

text \<open>
  The body of the \<open>try\<close> block for one log. \<open>Returned None\<close> is the \<open>continue\<close> of a
  log before the cutoff, \<open>Returned (Some e)\<close> is the event that gets pushed, and
  \<open>Thrown\<close> is an exception, which the \<open>catch\<close> block turns into a warning.
  The lookup \<open>getBlockTimestamp\<close> goes to the network and is a parameter: a function from
  the block number of the log to the number the lookup resolves to.
\<close>

definition processDelegationEvent ::
  "(string \<Rightarrow> jsnumber) \<Rightarrow> int \<Rightarrow> raw_log \<Rightarrow> delegation_event option outcome" where
  "processDelegationEvent getBlockTimestamp cutoffTimestamp event =
     (let fromLog = (case log_timeStamp event of Some s \<Rightarrow> parseInt16 s | None \<Rightarrow> NaN);
          blockTimestamp =
            (if js_truthy fromLog then fromLog else getBlockTimestamp (log_blockNumber event))
      in if js_less blockTimestamp (Number cutoffTimestamp) then Returned None
         else
           (let validatorId = parseInt16 (js_string (js_index (log_topics event) 1)) in
            case js_index (log_topics event) 2 of
              None \<Rightarrow> Thrown ''TypeError: Cannot read properties of undefined''
            | Some topic2 \<Rightarrow>
                (let userAddress = ''0x'' @ js_slice_from 26 topic2;
                     amountHex = js_slice 0 66 (log_data event)
                 in case BigInt amountHex of
                      Thrown e \<Rightarrow> Thrown e
                    | Returned amountWei \<Rightarrow>
                        (let amountPolStr = formatUnits amountWei 18 in
                         Returned (Some
                           \<lparr> ev_validatorId = validatorId,
                             ev_user = toLowerCase userAddress,
                             ev_amountWei = toString amountWei,
                             ev_amountPol = amountPolStr,
                             ev_blockNumber = parseInt16 (log_blockNumber event),
                             ev_transactionHash = log_transactionHash event,
                             ev_timestamp = blockTimestamp,
                             ev_parsedTime = js_times blockTimestamp (Number 1000),
                             ev_eventType = ''delegation'',
                             ev_source = ''ethereum'' \<rparr>)))))"

text \<open>The \<open>for\<close> loop: \<open>processedEvents\<close> grows by the events that are pushed.\<close>

fun processDelegationEvents_loop ::
  "(string \<Rightarrow> jsnumber) \<Rightarrow> int \<Rightarrow> raw_log list \<Rightarrow> delegation_event list
     \<Rightarrow> delegation_event list" where
  "processDelegationEvents_loop getBlockTimestamp cutoffTimestamp [] processedEvents =
     processedEvents"
| "processDelegationEvents_loop getBlockTimestamp cutoffTimestamp (event # rest) processedEvents =
     (case processDelegationEvent getBlockTimestamp cutoffTimestamp event of
        Thrown error \<Rightarrow>
          processDelegationEvents_loop getBlockTimestamp cutoffTimestamp rest processedEvents
      | Returned None \<Rightarrow>
          processDelegationEvents_loop getBlockTimestamp cutoffTimestamp rest processedEvents
      | Returned (Some processedEvent) \<Rightarrow>
          processDelegationEvents_loop getBlockTimestamp cutoffTimestamp rest
            (processedEvents @ [processedEvent]))"

definition processDelegationEvents ::
  "(string \<Rightarrow> jsnumber) \<Rightarrow> raw_log list \<Rightarrow> int \<Rightarrow> delegation_event list" where
  "processDelegationEvents getBlockTimestamp events cutoffTimestamp =
     js_sort (\<lambda>a b. js_less (js_minus (ev_timestamp a) (ev_timestamp b)) (Number 0))
       (processDelegationEvents_loop getBlockTimestamp cutoffTimestamp events [])"

section \<open>DirectRPCDelegatorFetcher: fetching logs in batches\<close>

text \<open>
  The provider behind \<open>rpcCall('eth_getLogs', ...)\<close> is outside the repository. It is a
  parameter of the model: a function that, given the ranges queried so far and the range
  asked for now, answers with the logs or with an error. Block numbers are integers; the
  logs themselves are not inspected by \<open>fetchLogs\<close> and have an arbitrary type.
\<close>

type_synonym block_range = "int \<times> int"

type_synonym 'log provider = "block_range list \<Rightarrow> int \<Rightarrow> int \<Rightarrow> 'log list outcome"

text \<open>The test of the \<open>catch\<close> block on the message of the error.\<close>

definition batchTooLarge :: "string \<Rightarrow> bool" where
  "batchTooLarge message =
     (js_includes message ''query returned more than'' \<or> js_includes message ''exceed maximum'')"

text \<open>
  The \<open>while\<close> loop of \<open>fetchLogs\<close>, with the two recursive calls of the \<open>catch\<close> block.
  The state of the loop is \<open>currentFrom\<close> and \<open>allLogs\<close>; \<open>queried\<close> is the list of the
  ranges sent to the provider so far, in order. Nothing in the code bounds the number of
  iterations, so the function is partial: \<open>None\<close> stands for a call that never returns.
\<close>

partial_function (option) fetchLogs_loop ::
  "'log provider \<Rightarrow> int \<Rightarrow> int \<Rightarrow> int \<Rightarrow> 'log list \<Rightarrow> block_range list
     \<Rightarrow> ('log list outcome \<times> block_range list) option" where
  [code]: "fetchLogs_loop rpc toBlock batchSize currentFrom allLogs queried =
     (if currentFrom \<le> toBlock then
        (let currentTo = min (currentFrom + batchSize - 1) toBlock;
             queried1 = queried @ [(currentFrom, currentTo)]
         in case rpc queried currentFrom currentTo of
              Returned logs \<Rightarrow>
                fetchLogs_loop rpc toBlock batchSize (currentTo + 1) (allLogs @ logs) queried1
            | Thrown message \<Rightarrow>
                if batchTooLarge message then
                  (let halfBatch = (currentTo - currentFrom + 1) div 2 in
                   do {
                     (first, queried2) \<leftarrow>
                       fetchLogs_loop rpc (currentFrom + halfBatch - 1) halfBatch currentFrom [] queried1;
                     case first of
                       Thrown e \<Rightarrow> Some (Thrown e, queried2)
                     | Returned firstHalf \<Rightarrow>
                         do {
                           (second, queried3) \<leftarrow>
                             fetchLogs_loop rpc currentTo halfBatch (currentFrom + halfBatch) [] queried2;
                           case second of
                             Thrown e \<Rightarrow> Some (Thrown e, queried3)
                           | Returned secondHalf \<Rightarrow>
                               fetchLogs_loop rpc toBlock batchSize (currentTo + 1)
                                 (allLogs @ firstHalf @ secondHalf) queried3
                         }
                   })
                else Some (Thrown message, queried1))
      else Some (Returned allLogs, queried))"

definition fetchLogs ::
  "'log provider \<Rightarrow> int \<Rightarrow> int \<Rightarrow> int \<Rightarrow> block_range list
     \<Rightarrow> ('log list outcome \<times> block_range list) option" where
  "fetchLogs rpc fromBlock toBlock batchSize queried =
     fetchLogs_loop rpc toBlock batchSize fromBlock [] queried"

text \<open>
  What one query over the whole range returns when the provider accepts it: the logs of
  the blocks of the range, block after block. \<open>chain n\<close> is the list of matching logs of
  block \<open>n\<close>.
\<close>

definition rangeLogs :: "(int \<Rightarrow> 'log list) \<Rightarrow> int \<Rightarrow> int \<Rightarrow> 'log list" where
  "rangeLogs chain fromBlock toBlock = concat (map chain [fromBlock..toBlock])"

text \<open>
  Two providers over the chain whose block \<open>n\<close> holds the single log \<open>n\<close>: one refuses
  every range of more than three blocks, the other refuses the single block 100.
\<close>

definition limit3_provider :: "int provider" where
  "limit3_provider queried a b =
     (if 3 < b - a + 1 then Thrown ''query returned more than 10000 results''
      else Returned (rangeLogs (\<lambda>n. [n]) a b))"

definition block100_provider :: "int provider" where
  "block100_provider queried a b =
     (if a = 100 \<and> b = 100 then Thrown ''query returned more than 10000 results''
      else Returned (rangeLogs (\<lambda>n. [n]) a b))"

subsection \<open>parseShareMintedEvent and the loop of main that calls it\<close>

text \<open>
  \<open>parseShareMintedEvent\<close> has no \<open>try\<close> block: an exception leaves the function. The
  conversion \<open>Number(amount) / 1e18\<close> is floating-point arithmetic and is a parameter of
  the model.
\<close>

record 'n share_minted =
  sm_validatorId :: jsnumber
  sm_userAddress :: string
  sm_amount :: 'n
  sm_blockNumber :: jsnumber
  sm_transactionHash :: string

definition parseShareMintedEvent :: "(int \<Rightarrow> 'n) \<Rightarrow> raw_log \<Rightarrow> 'n share_minted outcome" where
  "parseShareMintedEvent weiToPol log =
     (let validatorId = parseInt16 (js_string (js_index (log_topics log) 1)) in
      case js_index (log_topics log) 2 of
        None \<Rightarrow> Thrown ''TypeError: Cannot read properties of undefined''
      | Some topic2 \<Rightarrow>
          (let userAddress = ''0x'' @ toLowerCase (js_slice_from 26 topic2);
               dataWithoutPrefix = js_slice_from 2 (log_data log);
               amountHex = ''0x'' @ js_slice 0 64 dataWithoutPrefix
           in case BigInt amountHex of
                Thrown e \<Rightarrow> Thrown e
              | Returned amount \<Rightarrow>
                  (let amountPol = weiToPol amount;
                       blockNumber = parseInt16 (log_blockNumber log)
                   in Returned \<lparr> sm_validatorId = validatorId,
                                 sm_userAddress = userAddress,
                                 sm_amount = amountPol,
                                 sm_blockNumber = blockNumber,
                                 sm_transactionHash = log_transactionHash log \<rparr>)))"

record 'n delegation =
  d_validatorId :: jsnumber
  d_validatorName :: string
  d_address :: string
  d_amount :: 'n
  d_transactionHash :: string

definition js_number_string :: "jsnumber \<Rightarrow> string" where
  "js_number_string n = (case n of NaN \<Rightarrow> ''NaN'' | Number v \<Rightarrow> toString v)"

text \<open>
  The \<open>forEach\<close> over the fetched logs in \<open>main\<close>: the call of
  \<open>parseShareMintedEvent\<close> stands in a \<open>try\<close> block whose \<open>catch\<close> is empty.
  \<open>validatorMap\<close> maps a validator id to its name.
\<close>

fun main_parseEvents ::
  "(int \<Rightarrow> 'n) \<Rightarrow> (jsnumber \<Rightarrow> string option) \<Rightarrow> raw_log list \<Rightarrow> 'n delegation list
     \<Rightarrow> 'n delegation list" where
  "main_parseEvents weiToPol validatorMap [] delegations = delegations"
| "main_parseEvents weiToPol validatorMap (log # rest) delegations =
     (case parseShareMintedEvent weiToPol log of
        Thrown err \<Rightarrow> main_parseEvents weiToPol validatorMap rest delegations
      | Returned event \<Rightarrow>
          main_parseEvents weiToPol validatorMap rest
            (delegations @
             [\<lparr> d_validatorId = sm_validatorId event,
                d_validatorName =
                  (case validatorMap (sm_validatorId event) of
                     Some name \<Rightarrow>
                       if name \<noteq> [] then name
                       else ''Validator '' @ js_number_string (sm_validatorId event)
                   | None \<Rightarrow> ''Validator '' @ js_number_string (sm_validatorId event)),
                d_address = sm_userAddress event,
                d_amount = sm_amount event,
                d_transactionHash = sm_transactionHash event \<rparr>]))"

text \<open>
  A log of a delegation of validator 118 whose data field holds two bytes, and the same
  log with the 32 bytes of the amount 1.5 POL.
\<close>

definition short_log :: raw_log where
  "short_log =
     \<lparr> log_timeStamp = Some ''0x6553f100'',
       log_blockNumber = ''0x11e1a30'',
       log_topics =
         [''0xc9afff0972d33d68c8d330fe0ebd0e9f54491ad8c59ae17330a9206f280f0865'',
          ''0x0000000000000000000000000000000000000000000000000000000000000076'',
          ''0x000000000000000000000000F977814e90dA44bFA03b6295A0616a897441aceC''],
       log_data = ''0x1234'',
       log_transactionHash = ''0x5c504ed432cb51138bcf09aa5e8a410dd4a1e204ef84bfed1be16dfba1b22060'' \<rparr>"

definition full_log :: raw_log where
  "full_log = short_log
     \<lparr> log_data := ''0x00000000000000000000000000000000000000000000000014d1120d7b160000'' \<rparr>"

section \<open>ValidatorTracker: ranking by net stake\<close>

text \<open>
  An entry of \<open>addressStakes\<close>. The amounts are JavaScript numbers; the ranking only
  compares them and takes the sign of a difference, which for finite numbers is the sign
  of the exact difference, so the ranking is modelled over any linearly ordered group.
  Further fields of an entry (\<open>validatorDetails\<close>) ride along in the extension of the
  record.
\<close>

record 'n address_stake =
  stake_address :: string
  totalDelegated :: 'n
  totalUnbonded :: 'n
  netStake :: 'n

text \<open>
  The chain \<open>filter\<close>, \<open>sort\<close>, \<open>slice(0, limit)\<close>, \<open>map\<close> that builds \<open>topDelegators\<close>
  from \<open>Object.values(addressStakes)\<close>, the entries in the order in which their
  addresses were first seen. The rank of an entry is its index plus one.
\<close>

definition topDelegators ::
  "int \<Rightarrow> ('n::linordered_ab_group_add, 'm) address_stake_scheme list
     \<Rightarrow> (nat \<times> ('n, 'm) address_stake_scheme) list" where
  "topDelegators limit stakes =
     enumerate 1
       (js_slice 0 limit
         (js_sort (\<lambda>a b. netStake b - netStake a < 0)
           (filter (\<lambda>stake. netStake stake > 0) stakes)))"

text \<open>Two entries with the same net stake; the address of the first is the greater one.\<close>

definition stake_b :: "int address_stake" where
  "stake_b = \<lparr> stake_address = ''0xbbbbbbbbbbbbbbbbbbbbbbbbbbbbbbbbbbbbbbbb'',
               totalDelegated = 5, totalUnbonded = 0, netStake = 5 \<rparr>"

definition stake_a :: "int address_stake" where
  "stake_a = \<lparr> stake_address = ''0xaaaaaaaaaaaaaaaaaaaaaaaaaaaaaaaaaaaaaaaa'',
               totalDelegated = 7, totalUnbonded = 2, netStake = 5 \<rparr>"

section \<open>The check of the API key\<close>

text \<open>
  What a call does besides returning: lines on the console and requests to the network,
  in the order in which they happen. The messages are given without the pictographs that
  the source puts in front of them.
\<close>

datatype effect = ConsoleLog string | ConsoleWarn string | ConsoleError string | HttpGet string

text \<open>
  The constructor of \<open>EthereumDelegationTracker\<close> reads the key from the environment:
  \<open>process.env.ETHERSCAN_API_KEY || 'YourApiKeyToken'\<close>. The variable is \<open>None\<close> when
  it is not set; an empty value is falsy as well.
\<close>

definition etherscanApiKey :: "string option \<Rightarrow> string" where
  "etherscanApiKey env =
     (case env of
        None \<Rightarrow> ''YourApiKeyToken''
      | Some key \<Rightarrow> if key \<noteq> [] then key else ''YourApiKeyToken'')"

text \<open>The test \<open>!key || key === 'YourApiKeyToken'\<close>.\<close>

definition keyNotConfigured :: "string \<Rightarrow> bool" where
  "keyNotConfigured key = (key = [] \<or> key = ''YourApiKeyToken'')"

text \<open>
  \<open>fetchDelegationEvents\<close>: the guard comes first. What follows it (the requests to
  Etherscan inside a \<open>try\<close> block that returns an empty list on any error) is a
  parameter: a function from the key and the arguments to its effects and its events.
\<close>

definition fetchDelegationEvents ::
  "(string \<Rightarrow> 'a \<Rightarrow> effect list \<times> 'e list) \<Rightarrow> string option \<Rightarrow> 'a
     \<Rightarrow> effect list \<times> 'e list outcome" where
  "fetchDelegationEvents queryEtherscan env args =
     (let key = etherscanApiKey env in
      if keyNotConfigured key then
        ([ConsoleWarn ''Etherscan API key not configured. Cannot fetch Ethereum delegation data.''],
         Returned [])
      else
        (let (effects, processedEvents) = queryEtherscan key args
         in (effects, Returned processedEvents)))"

text \<open>
  \<open>fetchAllValidators\<close> asks the staking API for the list of validators. The answer of
  the network is a parameter: the list \<open>response.data.result || []\<close>, or the error that
  \<open>axios.get\<close> throws.
\<close>

definition validatorsUrl :: string where
  "validatorsUrl = ''https://staking-api.polygon.technology/api/v2/validators''"

definition fetchAllValidators :: "'v list outcome \<Rightarrow> effect list \<times> 'v list" where
  "fetchAllValidators response =
     (case response of
        Returned validators \<Rightarrow>
          ([ConsoleLog ''Fetching all validators...'',
            HttpGet validatorsUrl,
            ConsoleLog (''Found '' @ toString (int (length validators)) @ '' validators'')],
           validators)
      | Thrown message \<Rightarrow>
          ([ConsoleLog ''Fetching all validators...'',
            HttpGet validatorsUrl,
            ConsoleError (''Error fetching validators: '' @ message)],
           []))"

text \<open>
  \<open>fetchRecentDelegations\<close> up to the check of the key. The line with the time range
  depends on the clock and the locale and is passed in as a string; what follows the check
  is a parameter again, a function that may throw, in which case the \<open>catch\<close> block of
  the whole body logs the error and returns an empty list.
\<close>

definition fetchRecentDelegations ::
  "(string \<Rightarrow> 'v list \<Rightarrow> effect list \<times> 'd list outcome) \<Rightarrow> string option \<Rightarrow> 'v list outcome
     \<Rightarrow> int \<Rightarrow> string \<Rightarrow> effect list \<times> 'd list outcome" where
  "fetchRecentDelegations queryEtherscan env response hours timeRange =
     (let intro =
            [ConsoleLog (''Fetching new delegations in the last '' @ toString hours @ '' hours...''),
             ConsoleLog (''Time range: '' @ timeRange),
             ConsoleLog ''Querying Ethereum for ShareMinted events...''];
          (fetching, validators) = fetchAllValidators response
      in if length validators = 0 then (intro @ fetching, Returned [])
         else
           (let key = etherscanApiKey env in
            if keyNotConfigured key then
              (intro @ fetching @
               [ConsoleError ''ETHERSCAN_API_KEY not configured. This is required to fetch delegation data.'',
                ConsoleError ''Please set ETHERSCAN_API_KEY in your .env file or environment variables.''],
               Returned [])
            else
              (case queryEtherscan key validators of
                 (effects, Returned topDelegations) \<Rightarrow>
                   (intro @ fetching @ effects, Returned topDelegations)
               | (effects, Thrown message) \<Rightarrow>
                   (intro @ fetching @ effects @
                    [ConsoleError (''Error fetching recent delegations: '' @ message)],
                    Returned []))))"

definition isHttpGet :: "effect \<Rightarrow> bool" where
  "isHttpGet e = (case e of HttpGet url \<Rightarrow> True | _ \<Rightarrow> False)"

section \<open>ValidatorTracker: net stake per address\<close>

subsection \<open>JavaScript numbers as binary64 values\<close>

text \<open>
  The amounts that the aggregator adds up are JavaScript numbers, that is IEEE 754
  binary64 values. A finite value is \<open>Finite m e\<close>, standing for \<open>m * 2^e\<close>, in the one
  form the format has for it: \<open>e\<close> from \<open>-1074\<close> to \<open>971\<close>, and \<open>2^52 \<le> |m| < 2^53\<close>
  unless \<open>e = -1074\<close>, where \<open>|m|\<close> may be smaller (zero is \<open>Finite 0 (-1074)\<close>; the sign of
  zero is not kept). Every operation rounds its exact result to the nearest such value,
  to the one with an even \<open>m\<close> on a tie.
\<close>

datatype double = Finite int int | PosInfinity | NegInfinity | NotANumber

definition zero :: double where
  "zero = Finite 0 (- 1074)"

function bitLength :: "int \<Rightarrow> int" where
  "bitLength n = (if n \<le> 0 then 0 else 1 + bitLength (n div 2))"
  by pat_completeness auto
termination
  by (relation "measure nat") auto

declare bitLength.simps [simp del]

text \<open>
  \<open>roundToDouble num den e\<close> is the binary64 value nearest to \<open>num / den * 2^e\<close>, for
  \<open>den > 0\<close>. The exponent \<open>x\<close> is chosen so that the quotient by \<open>2^x\<close> has 53 bits, or is
  \<open>-1074\<close> when the value is too small for that; the quotient is then rounded to an
  integer, half to even. A result beyond the largest finite value is an infinity.
\<close>

definition scaleTo :: "int \<Rightarrow> int \<Rightarrow> int \<Rightarrow> int \<Rightarrow> int \<times> int" where
  "scaleTo x mag den e =
     (if x \<le> e then (mag * 2 ^ nat (e - x), den) else (mag, den * 2 ^ nat (x - e)))"

definition roundToDouble :: "int \<Rightarrow> int \<Rightarrow> int \<Rightarrow> double" where
  "roundToDouble num den e =
     (if num = 0 then zero
      else
        (let mag = abs num;
             x0 = e + bitLength mag - bitLength den - 53;
             x1 = (if 2 ^ 53 \<le> fst (scaleTo x0 mag den e) div snd (scaleTo x0 mag den e)
                   then x0 + 1 else x0);
             x = max x1 (- 1074);
             n = fst (scaleTo x mag den e);
             d = snd (scaleTo x mag den e);
             q = n div d;
             r = n mod d;
             m = (if d < 2 * r \<or> (2 * r = d \<and> odd q) then q + 1 else q);
             m' = (if m = 2 ^ 53 then 2 ^ 52 else m);
             x' = (if m = 2 ^ 53 then x + 1 else x)
         in if 971 < x' then (if num < 0 then NegInfinity else PosInfinity)
            else Finite (if num < 0 then - m' else m') x'))"

text \<open>Addition and subtraction: the exact sum of two finite values, rounded.\<close>

fun fadd :: "double \<Rightarrow> double \<Rightarrow> double" where
  "fadd (Finite m1 e1) (Finite m2 e2) =
     (let e = min e1 e2
      in roundToDouble (m1 * 2 ^ nat (e1 - e) + m2 * 2 ^ nat (e2 - e)) 1 e)"
| "fadd NotANumber b = NotANumber"
| "fadd a NotANumber = NotANumber"
| "fadd PosInfinity NegInfinity = NotANumber"
| "fadd NegInfinity PosInfinity = NotANumber"
| "fadd PosInfinity b = PosInfinity"
| "fadd a PosInfinity = PosInfinity"
| "fadd NegInfinity b = NegInfinity"
| "fadd a NegInfinity = NegInfinity"

fun fneg :: "double \<Rightarrow> double" where
  "fneg (Finite m e) = Finite (- m) e"
| "fneg PosInfinity = NegInfinity"
| "fneg NegInfinity = PosInfinity"
| "fneg NotANumber = NotANumber"

definition fsub :: "double \<Rightarrow> double \<Rightarrow> double" where
  "fsub a b = fadd a (fneg b)"



subsection \<open>fromWeiToPolNumberStatic\<close>



subsection \<open>The sums per address\<close>

text \<open>
  An element of \<open>allDelegations\<close> or \<open>allUnbonds\<close>: the address and the amount in POL.
  The validator of the event only feeds the breakdown per validator, which does not touch
  the three totals of an address and is left out.
\<close>

record stake_event =
  se_address :: string
  se_amount :: double

text \<open>
  \<open>addressStakes\<close> is an object keyed by address, with one entry per key. The keys
  start with \<open>0x\<close>, so the entries are kept in the order in which the keys were added.
\<close>

definition newStake :: "string \<Rightarrow> double address_stake" where
  "newStake key =
     \<lparr> stake_address = key, totalDelegated = zero, totalUnbonded = zero, netStake = zero \<rparr>"

definition ensureStake :: "double address_stake list \<Rightarrow> string \<Rightarrow> double address_stake list" where
  "ensureStake addressStakes key =
     (if key \<in> set (map stake_address addressStakes) then addressStakes
      else addressStakes @ [newStake key])"

definition updateStake ::
  "(double address_stake \<Rightarrow> double address_stake) \<Rightarrow> string \<Rightarrow> double address_stake list
     \<Rightarrow> double address_stake list" where
  "updateStake f key addressStakes =
     map (\<lambda>stake. if stake_address stake = key then f stake else stake) addressStakes"

text \<open>The bodies of the two \<open>forEach\<close> loops.\<close>

definition addDelegation :: "double address_stake list \<Rightarrow> stake_event \<Rightarrow> double address_stake list" where
  "addDelegation addressStakes event =
     (let key = se_address event
      in updateStake
           (\<lambda>stake. stake\<lparr> totalDelegated := fadd (totalDelegated stake) (se_amount event) \<rparr>)
           key (ensureStake addressStakes key))"

definition addUnbond :: "double address_stake list \<Rightarrow> stake_event \<Rightarrow> double address_stake list" where
  "addUnbond addressStakes event =
     (let key = se_address event
      in updateStake
           (\<lambda>stake. stake\<lparr> totalUnbonded := fadd (totalUnbonded stake) (se_amount event) \<rparr>)
           key (ensureStake addressStakes key))"

definition calculateNetStake :: "double address_stake \<Rightarrow> double address_stake" where
  "calculateNetStake stake =
     stake\<lparr> netStake := fsub (totalDelegated stake) (totalUnbonded stake) \<rparr>"

text \<open>
  \<open>Object.values(addressStakes)\<close> after the two loops and the computation of the net
  stakes, from the delegations and the unbondings in the order in which they were
  collected.
\<close>

definition addressStakes :: "stake_event list \<Rightarrow> stake_event list \<Rightarrow> double address_stake list" where
  "addressStakes allDelegations allUnbonds =
     map calculateNetStake (foldl addUnbond (foldl addDelegation [] allDelegations) allUnbonds)"







section \<open>Properties of the classification\<close>

lemma toLowerCase_toUpperCase_char:
  "toLowerCase_char (toUpperCase_char c) = toLowerCase_char c"
  by (auto simp: toLowerCase_char_def toUpperCase_char_def Let_def)

lemma toLowerCase_toUpperCase: "toLowerCase (toUpperCase s) = toLowerCase s"
  by (simp add: toLowerCase_def toUpperCase_def toLowerCase_toUpperCase_char)

lemma classify_fst:
  assumes "cache_static c"
  shows "fst (classifyAddressBasic c a) = staticResult (toLowerCase a)"
proof (cases "c (toLowerCase a)")
  case None
  then show ?thesis
    by (simp add: classifyAddressBasic_def isKnownExchangeOrDefi_def staticResult_def Let_def)
next
  case (Some r)
  with assms have "r = staticResult (toLowerCase a)"
    unfolding cache_static_def by (metis option.distinct(1) option.inject)
  with Some show ?thesis
    by (simp add: classifyAddressBasic_def Let_def)
qed

lemma classify_snd:
  assumes "cache_static c"
  shows "cache_static (snd (classifyAddressBasic c a))"
proof (cases "c (toLowerCase a)")
  case None
  with assms show ?thesis
    unfolding cache_static_def
    by (auto simp add: classifyAddressBasic_def isKnownExchangeOrDefi_def staticResult_def Let_def)
next
  case (Some r)
  with assms show ?thesis
    by (simp add: classifyAddressBasic_def Let_def)
qed

lemma cache_static_fold:
  "cache_static c \<Longrightarrow> cache_static (fold (\<lambda>a c. snd (classifyAddressBasic c a)) earlier c)"
  by (induction earlier arbitrary: c) (simp_all add: classify_snd)

lemma cache_static_cacheAfter: "cache_static (cacheAfter earlier)"
  unfolding cacheAfter_def by (rule cache_static_fold) (simp add: cache_static_def)

text \<open>
  Claim C6. Classification is a function of the address string alone and does not depend
  on its letter case: for every ASCII string \<open>addr\<close> (every hex address is one), the
  result for \<open>addr\<close> and the result for \<open>addr.toUpperCase()\<close> are the same, whatever
  was classified before either call; and when the lower-cased address is in the static
  exchange set, both are classified as an exchange.
\<close>

theorem classify_case_insensitive:
  assumes "is_ascii addr"
  shows "fst (classifyAddressBasic (cacheAfter earlier) addr) =
           fst (classifyAddressBasic (cacheAfter earlier') (toUpperCase addr)) \<and>
         (toLowerCase addr \<in> knownExchangeAddresses \<longrightarrow>
            type (fst (classifyAddressBasic (cacheAfter earlier) addr)) = Exchange \<and>
            type (fst (classifyAddressBasic (cacheAfter earlier') (toUpperCase addr))) = Exchange)"
  by (simp add: classify_fst cache_static_cacheAfter toLowerCase_toUpperCase staticResult_def)

theorem classify_case_insensitive_witness:
  "is_ascii ''0x5e3346444010135322268A0cA24b70E5b1d0D52a'' \<and>
   fst (classifyAddressBasic (cacheAfter [''0xdAC17F958D2ee523a2206206994597C13D831ec7''])
          ''0x5e3346444010135322268A0cA24b70E5b1d0D52a'') =
     fst (classifyAddressBasic (cacheAfter [])
            (toUpperCase ''0x5e3346444010135322268A0cA24b70E5b1d0D52a'')) \<and>
   type (fst (classifyAddressBasic (cacheAfter [])
                (toUpperCase ''0x5e3346444010135322268A0cA24b70E5b1d0D52a''))) = Exchange"
proof -
  have h: "is_ascii ''0x5e3346444010135322268A0cA24b70E5b1d0D52a''"
    by code_simp
  have m: "toLowerCase ''0x5e3346444010135322268A0cA24b70E5b1d0D52a'' \<in> knownExchangeAddresses"
    by code_simp
  from classify_case_insensitive[OF h,
         of "[''0xdAC17F958D2ee523a2206206994597C13D831ec7'']" "[]"] h m
  show ?thesis by blast
qed

text \<open>
  Claim C7. Classification looks the lower-cased address up in the two static sets: the
  type is \<open>exchange\<close> when it is in the exchange set, \<open>defi\<close> when it is in the DeFi set
  only, and \<open>individual\<close> for every address found in neither. The function is total on
  strings: there is no failing branch.
\<close>

theorem classify_static_lookup:
  "type (fst (classifyAddressBasic (cacheAfter earlier) addr)) =
     (if toLowerCase addr \<in> knownExchangeAddresses then Exchange
      else if toLowerCase addr \<in> knownDefiAddresses then Defi
      else Individual)"
  by (simp add: classify_fst cache_static_cacheAfter staticResult_def)


lemma staticResult_type: "type (staticResult k) \<noteq> Institutional"
  by (simp add: staticResult_def)

lemma makeBatches_returns:
  assumes "0 < batchSize"
  shows "\<exists>bs. makeBatches i batchSize addresses batches = Some bs"
proof (induction "nat (int (length addresses) - i)" arbitrary: i batches rule: less_induct)
  case less
  show ?case
  proof (cases "i < int (length addresses)")
    case True
    with assms have "nat (int (length addresses) - (i + batchSize)) < nat (int (length addresses) - i)"
      by linarith
    from less[OF this] True show ?thesis
      by (subst makeBatches.simps) simp
  next
    case False
    then show ?thesis by (subst makeBatches.simps) simp
  qed
qed

lemma classifyBatch_static:
  "cache_static c \<Longrightarrow>
     cache_static (snd (classifyBatch c batch)) \<and>
     list_all (\<lambda>ac. type (snd ac) \<noteq> Institutional) (fst (classifyBatch c batch))"
proof (induction batch arbitrary: c)
  case Nil
  then show ?case by simp
next
  case (Cons a batch)
  from Cons.prems have s: "cache_static (snd (classifyAddressBasic c a))"
    by (rule classify_snd)
  from Cons.prems have f: "type (fst (classifyAddressBasic c a)) \<noteq> Institutional"
    by (simp add: classify_fst staticResult_type)
  from Cons.IH[OF s] f show ?case
    by (simp add: case_prod_unfold Let_def)
qed

lemma processResult_institutional:
  "type (snd ac) \<noteq> Institutional \<Longrightarrow>
     institutional (filteredOut (processResult opts results ac)) = institutional (filteredOut results)"
  by (simp add: processResult_def Let_def)

lemma foldl_processResult_institutional:
  "list_all (\<lambda>ac. type (snd ac) \<noteq> Institutional) rs \<Longrightarrow>
     institutional (filteredOut (foldl (processResult opts) results rs)) =
       institutional (filteredOut results)"
  by (induction rs arbitrary: results) (simp_all add: processResult_institutional)

lemma processBatches_institutional:
  "cache_static c \<Longrightarrow>
     institutional (filteredOut (fst (processBatches opts c results batches))) =
       institutional (filteredOut results)"
proof (induction batches arbitrary: c results)
  case Nil
  then show ?case by simp
next
  case (Cons batch batches)
  from classifyBatch_static[OF Cons.prems, of batch]
  have s: "cache_static (snd (classifyBatch c batch))"
    and t: "list_all (\<lambda>ac. type (snd ac) \<noteq> Institutional) (fst (classifyBatch c batch))"
    by simp_all
  show ?case
    by (simp add: case_prod_unfold Let_def Cons.IH[OF s] foldl_processResult_institutional[OF t])
qed

text \<open>
  Claim C10. \<open>classifyAddressBasic\<close> only ever returns the types \<open>exchange\<close>,
  \<open>defi\<close> and \<open>individual\<close>; hence \<open>filterDelegatorAddresses\<close>, for any options
  with a positive \<open>maxConcurrency\<close> (so that the batching loop ends), returns a result
  whose \<open>filteredOut.institutional\<close> list is empty, whatever \<open>excludeInstitutional\<close> is.
\<close>

theorem never_institutional:
  assumes "0 < maxConcurrency opts"
  shows "type (fst (classifyAddressBasic (cacheAfter earlier) addr)) \<in> {Exchange, Defi, Individual} \<and>
         (\<exists>results cache'.
            filterDelegatorAddresses (cacheAfter earlier) addresses opts = Some (results, cache') \<and>
            institutional (filteredOut results) = [])"
proof -
  have a: "type (fst (classifyAddressBasic (cacheAfter earlier) addr)) \<in> {Exchange, Defi, Individual}"
    by (simp add: classify_fst cache_static_cacheAfter staticResult_def)
  from assms have "0 < min (maxConcurrency opts) 10" by simp
  from makeBatches_returns[OF this]
  obtain bs where bs: "makeBatches 0 (min (maxConcurrency opts) 10) addresses [] = Some bs"
    by blast
  have "institutional (filteredOut (fst (processBatches opts (cacheAfter earlier) empty_results bs))) = []"
    by (simp add: processBatches_institutional cache_static_cacheAfter empty_results_def)
  with bs have "\<exists>results cache'.
            filterDelegatorAddresses (cacheAfter earlier) addresses opts = Some (results, cache') \<and>
            institutional (filteredOut results) = []"
    by (simp add: filterDelegatorAddresses_def Let_def) (metis prod.collapse)
  with a show ?thesis by blast
qed

theorem never_institutional_witness:
  "0 < maxConcurrency default_options \<and>
   type (fst (classifyAddressBasic (cacheAfter []) ''0xCFfAd3200574698b78f32232aa9D63eABD290703''))
     \<in> {Exchange, Defi, Individual} \<and>
   (\<exists>results cache'.
      filterDelegatorAddresses (cacheAfter [])
        [''0xCFfAd3200574698b78f32232aa9D63eABD290703'',
         ''0x8f3Cf7ad23Cd3CaDbD9735AFf958023239c6A063'',
         ''0x1111111111111111111111111111111111111111''] default_options = Some (results, cache') \<and>
      institutional (filteredOut results) = [])"
proof -
  have h: "0 < maxConcurrency default_options"
    by (simp add: default_options_def)
  from never_institutional[OF h, of "[]"] h show ?thesis by blast
qed

section \<open>Properties of formatUnits\<close>

lemma digit_value_digit_char: "0 \<le> d \<Longrightarrow> d < 10 \<Longrightarrow> digit_value (digit_char d) = d"
  by (simp add: digit_value_def digit_char_def)

lemma digit_char_not_dot: "0 \<le> d \<Longrightarrow> d < 10 \<Longrightarrow> digit_char d \<noteq> CHR ''.''"
proof
  assume d: "0 \<le> d" "d < 10" and e: "digit_char d = CHR ''.''"
  then have "of_char (digit_char d) = (of_char CHR ''.'' :: int)" by simp
  with d show False by (simp add: digit_char_def)
qed

lemma spec_parseDecimal_snoc:
  "spec_parseDecimal (s @ [c]) = 10 * spec_parseDecimal s + digit_value c"
  by (simp add: spec_parseDecimal_def)

lemma spec_parseDecimal_toString_digits:
  "0 \<le> n \<Longrightarrow> spec_parseDecimal (toString_digits n) = n"
proof (induction n rule: toString_digits.induct)
  case (1 n)
  show ?case
  proof (cases "n < 10")
    case True
    with "1.prems" show ?thesis
      by (subst toString_digits.simps) (simp add: spec_parseDecimal_def digit_value_digit_char)
  next
    case False
    with 1 have "spec_parseDecimal (toString_digits (n div 10)) = n div 10" by simp
    with False "1.prems" show ?thesis
      by (subst toString_digits.simps) (simp add: spec_parseDecimal_snoc digit_value_digit_char)
  qed
qed

lemma toString_digits_no_dot: "0 \<le> n \<Longrightarrow> CHR ''.'' \<notin> set (toString_digits n)"
proof (induction n rule: toString_digits.induct)
  case (1 n)
  show ?case
  proof (cases "n < 10")
    case True
    with "1.prems" show ?thesis
      using digit_char_not_dot[of n] by (subst toString_digits.simps) auto
  next
    case False
    with 1 have "CHR ''.'' \<notin> set (toString_digits (n div 10))" by simp
    with False show ?thesis
      using digit_char_not_dot[of "n mod 10"] by (subst toString_digits.simps) auto
  qed
qed

lemma length_toString_digits:
  "0 \<le> n \<Longrightarrow> n < 10 ^ k \<Longrightarrow> 0 < k \<Longrightarrow> length (toString_digits n) \<le> k"
proof (induction n arbitrary: k rule: toString_digits.induct)
  case (1 n)
  show ?case
  proof (cases "n < 10")
    case True
    with 1 show ?thesis by (subst toString_digits.simps) simp
  next
    case False
    with "1.prems" obtain j where k: "k = Suc j" and j: "0 < j"
      by (cases k; cases "k - 1") auto
    from "1.prems" k have "n div 10 < 10 ^ j"
      by (simp add: div_less_iff_less_mult mult.commute)
    moreover from "1.prems" have "0 \<le> n div 10" by simp
    ultimately have "length (toString_digits (n div 10)) \<le> j"
      using "1.IH"[OF False _ _ j] by simp
    with False k show ?thesis by (subst toString_digits.simps) simp
  qed
qed

lemma spec_parseDecimal_zeros:
  "spec_parseDecimal (replicate k CHR ''0'' @ s) = spec_parseDecimal s"
proof -
  have "foldl (\<lambda>acc c. 10 * acc + digit_value c) 0 (replicate k CHR ''0'') = 0"
    by (induction k) (simp_all add: digit_value_def)
  then show ?thesis by (simp add: spec_parseDecimal_def)
qed

lemma zeros_replicate:
  "takeWhile (\<lambda>c. c = CHR ''0'') xs =
     replicate (length (takeWhile (\<lambda>c. c = CHR ''0'') xs)) CHR ''0''"
proof -
  have "\<forall>y\<in>set (takeWhile (\<lambda>c. c = CHR ''0'') xs). y = CHR ''0''"
    by (auto dest: set_takeWhileD)
  then show ?thesis by (simp add: replicate_length_same)
qed

lemma trim_pad_back:
  "padEnd (length s) CHR ''0'' (trimTrailingZeros s) = s"
proof -
  let ?P = "\<lambda>c. c = CHR ''0''"
  let ?n = "length (takeWhile ?P (rev s))"
  have "rev (takeWhile ?P (rev s) @ dropWhile ?P (rev s)) = rev (rev s)"
    by (simp only: takeWhile_dropWhile_id)
  then have "rev (dropWhile ?P (rev s)) @ rev (takeWhile ?P (rev s)) = s"
    by (simp only: rev_append rev_rev_ident)
  moreover have "rev (takeWhile ?P (rev s)) = replicate ?n CHR ''0''"
    using zeros_replicate[of "rev s"] by (metis rev_replicate)
  ultimately have s: "s = rev (dropWhile ?P (rev s)) @ replicate ?n CHR ''0''" by simp
  have "length s = length (rev (dropWhile ?P (rev s))) + ?n"
    using arg_cong[OF s, of length] by (simp only: length_append length_replicate)
  then have "length s - length (rev (dropWhile ?P (rev s))) = ?n" by linarith
  then have "padEnd (length s) CHR ''0'' (trimTrailingZeros s) =
               rev (dropWhile ?P (rev s)) @ replicate ?n CHR ''0''"
    unfolding padEnd_def trimTrailingZeros_def by simp
  with s show ?thesis by simp
qed

lemma trimTrailingZeros_last:
  assumes "trimTrailingZeros s \<noteq> []"
  shows "last (trimTrailingZeros s) \<noteq> CHR ''0''"
proof -
  let ?d = "dropWhile (\<lambda>c. c = CHR ''0'') (rev s)"
  from assms have d: "?d \<noteq> []" by (simp add: trimTrailingZeros_def)
  then have "hd ?d \<noteq> CHR ''0''" by (rule hd_dropWhile)
  moreover from d have "last (rev ?d) = hd ?d" by (simp add: last_rev)
  ultimately show ?thesis by (simp add: trimTrailingZeros_def)
qed

lemma length_padStart_fraction:
  assumes "0 \<le> f" "f < 10 ^ k" "0 < k"
  shows "length (padStart k CHR ''0'' (toString f)) = k"
  using length_toString_digits[OF assms] assms(1)
  by (simp add: padStart_def toString_def)

lemma spec_parseDecimal_padStart:
  "0 \<le> f \<Longrightarrow> spec_parseDecimal (padStart k CHR ''0'' (toString f)) = f"
  by (simp add: padStart_def toString_def spec_parseDecimal_zeros spec_parseDecimal_toString_digits)

lemma split_at_dot:
  assumes "CHR ''.'' \<notin> set ip"
  shows "spec_integerPart (ip @ (if f \<noteq> [] then ''.'' @ f else '''')) = ip"
    and "spec_fractionalPart (ip @ (if f \<noteq> [] then ''.'' @ f else '''')) = f"
proof -
  from assms have a: "\<And>x. x \<in> set ip \<Longrightarrow> x \<noteq> CHR ''.''" by auto
  have t: "takeWhile (\<lambda>c. c \<noteq> CHR ''.'') (ip @ ys) = ip @ takeWhile (\<lambda>c. c \<noteq> CHR ''.'') ys" for ys
    using a by (simp add: takeWhile_append2)
  have d: "dropWhile (\<lambda>c. c \<noteq> CHR ''.'') (ip @ ys) = dropWhile (\<lambda>c. c \<noteq> CHR ''.'') ys" for ys
    using a by (simp add: dropWhile_append2)
  show "spec_integerPart (ip @ (if f \<noteq> [] then ''.'' @ f else '''')) = ip"
    using t[of "''.'' @ f"] t[of "[]"] by (simp add: spec_integerPart_def)
  show "spec_fractionalPart (ip @ (if f \<noteq> [] then ''.'' @ f else '''')) = f"
    using d[of "''.'' @ f"] d[of "[]"] by (simp add: spec_fractionalPart_def)
qed

lemma fracStr_zero: "padStart 18 CHR ''0'' (toString 0) = replicate 18 CHR ''0''"
  by code_simp

lemma formatUnits_shape:
  assumes "0 \<le> v"
  shows "formatUnits v 18 =
           toString (v div 10 ^ 18) @
           (if trimTrailingZeros (padStart 18 CHR ''0'' (toString (v mod 10 ^ 18))) \<noteq> []
            then ''.'' @ trimTrailingZeros (padStart 18 CHR ''0'' (toString (v mod 10 ^ 18)))
            else '''')"
  using assms by (simp add: formatUnits_def Let_def)

text \<open>
  Claim C2. For every non-negative integer \<open>v\<close>, however large, reading
  \<open>formatUnits(v, 18)\<close> back as integer part times \<open>10^18\<close> plus the fractional part
  padded on the right to 18 digits gives \<open>v\<close> again. When \<open>v\<close> is a multiple of
  \<open>10^18\<close> the fractional part and the point are left out altogether; otherwise the
  string has a point and does not end in a zero digit. The computation is on unbounded
  integers only.
\<close>

theorem formatUnits_roundtrip:
  assumes "0 \<le> v"
  shows "spec_parseUnits (formatUnits v 18) 18 = v \<and>
         (v mod 10 ^ 18 = 0 \<longrightarrow> formatUnits v 18 = toString (v div 10 ^ 18)) \<and>
         (v mod 10 ^ 18 \<noteq> 0 \<longrightarrow>
            CHR ''.'' \<in> set (formatUnits v 18) \<and> last (formatUnits v 18) \<noteq> CHR ''0'')"
proof -
  define ip where "ip = toString (v div 10 ^ 18)"
  define fs where "fs = padStart 18 CHR ''0'' (toString (v mod 10 ^ 18))"
  define tr where "tr = trimTrailingZeros fs"
  have fu: "formatUnits v 18 = ip @ (if tr \<noteq> [] then ''.'' @ tr else '''')"
    unfolding ip_def fs_def tr_def by (rule formatUnits_shape[OF assms])
  have f0: "0 \<le> v mod 10 ^ 18" and f1: "v mod 10 ^ 18 < 10 ^ 18"
    by simp_all
  from assms have i0: "0 \<le> v div 10 ^ 18"
    by (simp add: pos_imp_zdiv_nonneg_iff)
  have nodot: "CHR ''.'' \<notin> set ip"
    using toString_digits_no_dot[OF i0] i0 by (simp add: ip_def toString_def)
  have len: "length fs = 18"
    unfolding fs_def by (rule length_padStart_fraction[OF f0 f1]) simp
  have padded: "padEnd 18 CHR ''0'' tr = fs"
    using trim_pad_back[of fs] len by (simp add: tr_def)
  have pi: "spec_parseDecimal ip = v div 10 ^ 18"
    using spec_parseDecimal_toString_digits[OF i0] i0 by (simp add: ip_def toString_def)
  have pf: "spec_parseDecimal fs = v mod 10 ^ 18"
    unfolding fs_def by (rule spec_parseDecimal_padStart[OF f0])
  have "spec_parseUnits (formatUnits v 18) 18 = v div 10 ^ 18 * 10 ^ 18 + v mod 10 ^ 18"
    unfolding spec_parseUnits_def fu split_at_dot[OF nodot] padded pi pf ..
  then have roundtrip: "spec_parseUnits (formatUnits v 18) 18 = v"
    by (simp only: div_mult_mod_eq)
  have zero: "formatUnits v 18 = ip" if z: "v mod 10 ^ 18 = 0"
  proof -
    have "fs = replicate 18 CHR ''0''"
      unfolding fs_def z by (rule fracStr_zero)
    then have "tr = []"
      by (simp add: tr_def trimTrailingZeros_def)
    with fu show ?thesis by simp
  qed
  have nonzero: "CHR ''.'' \<in> set (formatUnits v 18) \<and> last (formatUnits v 18) \<noteq> CHR ''0''"
    if nz: "v mod 10 ^ 18 \<noteq> 0"
  proof -
    have "tr \<noteq> []"
    proof
      assume "tr = []"
      with padded have "fs = replicate 18 CHR ''0'' @ []"
        by (simp add: padEnd_def)
      then have "spec_parseDecimal fs = spec_parseDecimal []"
        by (simp only: spec_parseDecimal_zeros)
      with pf nz show False
        by (simp add: spec_parseDecimal_def)
    qed
    moreover from this have "last tr \<noteq> CHR ''0''"
      unfolding tr_def by (rule trimTrailingZeros_last)
    ultimately show ?thesis
      by (simp add: fu)
  qed
  from roundtrip zero nonzero show ?thesis
    unfolding ip_def by blast
qed

theorem formatUnits_roundtrip_witness:
  "(0::int) \<le> 9007199254740993000000000000000001 \<and>
   formatUnits 9007199254740993000000000000000001 18 = ''9007199254740993.000000000000000001'' \<and>
   spec_parseUnits ''9007199254740993.000000000000000001'' 18 = 9007199254740993000000000000000001 \<and>
   formatUnits 1234500000000000000000 18 = ''1234.5'' \<and>
   spec_parseUnits (formatUnits 1234500000000000000000 18) 18 = 1234500000000000000000 \<and>
   formatUnits 9007199254740993000000000000000000 18 = ''9007199254740993''"
proof -
  have a: "formatUnits 9007199254740993000000000000000001 18 = ''9007199254740993.000000000000000001''"
    by code_simp
  have b: "formatUnits 1234500000000000000000 18 = ''1234.5''"
    by code_simp
  have c: "toString (9007199254740993000000000000000000 div 10 ^ 18) = ''9007199254740993''"
    by code_simp
  have z: "(9007199254740993000000000000000000::int) mod 10 ^ 18 = 0"
    by simp
  from formatUnits_roundtrip[of 9007199254740993000000000000000001]
  have "spec_parseUnits (formatUnits 9007199254740993000000000000000001 18) 18 =
          9007199254740993000000000000000001"
    by simp
  moreover from formatUnits_roundtrip[of 1234500000000000000000]
  have "spec_parseUnits (formatUnits 1234500000000000000000 18) 18 = 1234500000000000000000"
    by simp
  moreover from formatUnits_roundtrip[of 9007199254740993000000000000000000] z c
  have "formatUnits 9007199254740993000000000000000000 18 = ''9007199254740993''"
    by simp
  ultimately show ?thesis
    using a b by simp
qed

section \<open>Properties of the decoders\<close>

lemma BigInt_bare_prefix: "BigInt ''0x'' = Thrown ''SyntaxError: Cannot convert 0x to a BigInt''"
  by code_simp

lemma amountHex_bare_prefix: "js_slice 0 66 ''0x'' = ''0x''"
  by (simp add: js_slice_def)

lemma amountHex_no_payload: "js_slice 0 64 (js_slice_from 2 ''0x'') = []"
  by (simp add: js_slice_def js_slice_from_def)

lemma processDelegationEvent_bare_prefix:
  "processDelegationEvent getBlockTimestamp cutoffTimestamp (log\<lparr>log_data := ''0x''\<rparr>) \<noteq>
     Returned (Some e)"
  by (simp add: processDelegationEvent_def Let_def BigInt_bare_prefix amountHex_bare_prefix
        split: option.splits)

lemma processDelegationEvents_loop_append:
  "processDelegationEvents_loop g c (xs @ ys) processed =
     processDelegationEvents_loop g c ys (processDelegationEvents_loop g c xs processed)"
proof (induction xs arbitrary: processed)
  case Nil
  then show ?case by simp
next
  case (Cons x xs)
  then show ?case
    by (cases "processDelegationEvent g c x") (simp_all split: option.splits)
qed

lemma processDelegationEvents_loop_bare_prefix:
  "processDelegationEvents_loop g c (log\<lparr>log_data := ''0x''\<rparr> # rest) processed =
     processDelegationEvents_loop g c rest processed"
proof (cases "processDelegationEvent g c (log\<lparr>log_data := ''0x''\<rparr>)")
  case (Returned r)
  with processDelegationEvent_bare_prefix[of g c log] have "r = None"
    by (cases r) auto
  with Returned show ?thesis by simp
next
  case (Thrown e)
  then show ?thesis by simp
qed

lemma parseShareMintedEvent_bare_prefix:
  "\<exists>e. parseShareMintedEvent weiToPol (log\<lparr>log_data := ''0x''\<rparr>) = Thrown e"
  by (simp add: parseShareMintedEvent_def Let_def BigInt_bare_prefix amountHex_no_payload
        split: option.splits)

lemma main_parseEvents_append:
  "main_parseEvents w m (xs @ ys) delegations =
     main_parseEvents w m ys (main_parseEvents w m xs delegations)"
proof (induction xs arbitrary: delegations)
  case Nil
  then show ?case by simp
next
  case (Cons x xs)
  then show ?case
    by (cases "parseShareMintedEvent w x") simp_all
qed

lemma main_parseEvents_bare_prefix:
  "main_parseEvents w m (log\<lparr>log_data := ''0x''\<rparr> # rest) delegations =
     main_parseEvents w m rest delegations"
  using parseShareMintedEvent_bare_prefix[of w log] by auto

text \<open>
  Claim C4, amended. A log whose data field is the bare prefix \<open>0x\<close>, with no payload
  at all, yields no event. In \<open>processDelegationEvents\<close> the error is caught inside the
  loop: the result is the one the same batch gives without that log, so the logs before
  and after it are processed as usual. \<open>parseShareMintedEvent\<close> itself throws for such a
  log; the loop of \<open>main\<close> that calls it catches the error and goes on with the next log.
\<close>

theorem empty_payload_dropped:
  "processDelegationEvents getBlockTimestamp
       (before @ [log\<lparr>log_data := ''0x''\<rparr>] @ after) cutoffTimestamp =
     processDelegationEvents getBlockTimestamp (before @ after) cutoffTimestamp \<and>
   (\<exists>e. parseShareMintedEvent weiToPol (log\<lparr>log_data := ''0x''\<rparr>) = Thrown e) \<and>
   main_parseEvents weiToPol validatorMap (before @ [log\<lparr>log_data := ''0x''\<rparr>] @ after) [] =
     main_parseEvents weiToPol validatorMap (before @ after) []"
proof -
  have "processDelegationEvents_loop getBlockTimestamp cutoffTimestamp
          (before @ [log\<lparr>log_data := ''0x''\<rparr>] @ after) [] =
        processDelegationEvents_loop getBlockTimestamp cutoffTimestamp (before @ after) []"
    by (simp only: processDelegationEvents_loop_append append_Cons append_Nil
          processDelegationEvents_loop_bare_prefix)
  then have a: "processDelegationEvents getBlockTimestamp
       (before @ [log\<lparr>log_data := ''0x''\<rparr>] @ after) cutoffTimestamp =
     processDelegationEvents getBlockTimestamp (before @ after) cutoffTimestamp"
    by (simp only: processDelegationEvents_def)
  have b: "main_parseEvents weiToPol validatorMap (before @ [log\<lparr>log_data := ''0x''\<rparr>] @ after) [] =
     main_parseEvents weiToPol validatorMap (before @ after) []"
    by (simp only: main_parseEvents_append append_Cons append_Nil main_parseEvents_bare_prefix)
  from a b parseShareMintedEvent_bare_prefix[of weiToPol log] show ?thesis
    by blast
qed

text \<open>
  The claim as stated fails for a payload of 1 to 31 bytes: \<open>BigInt\<close> accepts a
  hexadecimal literal of any length, so the two bytes \<open>0x1234\<close> are decoded as the
  amount 4660 and the event is produced.
\<close>

theorem short_payload_counterexample:
  "log_data short_log = ''0x1234'' \<and>
   processDelegationEvents (\<lambda>blockNumber. NaN) [short_log] 0 =
     [\<lparr> ev_validatorId = Number 118,
        ev_user = ''0xf977814e90da44bfa03b6295a0616a897441acec'',
        ev_amountWei = ''4660'',
        ev_amountPol = ''0.00000000000000466'',
        ev_blockNumber = Number 18750000,
        ev_transactionHash = ''0x5c504ed432cb51138bcf09aa5e8a410dd4a1e204ef84bfed1be16dfba1b22060'',
        ev_timestamp = Number 1700000000,
        ev_parsedTime = Number 1700000000000,
        ev_eventType = ''delegation'',
        ev_source = ''ethereum'' \<rparr>] \<and>
   map d_address (main_parseEvents (\<lambda>amount. ()) (\<lambda>validatorId. None) [short_log] []) =
     [''0xf977814e90da44bfa03b6295a0616a897441acec'']"
  by code_simp

section \<open>Properties of fetchLogs\<close>

lemma rangeLogs_empty: "toBlock < fromBlock \<Longrightarrow> rangeLogs chain fromBlock toBlock = []"
  by (simp add: rangeLogs_def)

lemma rangeLogs_append:
  assumes "a \<le> b + 1" and "b \<le> c"
  shows "rangeLogs chain a b @ rangeLogs chain (b + 1) c = rangeLogs chain a c"
proof (cases "b = c")
  case True
  then show ?thesis by (simp add: rangeLogs_def)
next
  case False
  with assms have "[a..c] = [a..(b + 1) - 1] @ [b + 1..c]"
    by (intro upto_split1) simp_all
  then show ?thesis by (simp add: rangeLogs_def)
qed

text \<open>
  The loop returns the logs of all remaining blocks when every error of the provider is a
  refusal of a range of at least two blocks. The induction is on the number of blocks
  left: each call made from the body of the loop has fewer blocks to cover.
\<close>

lemma fetchLogs_loop_complete:
  assumes honest: "\<And>h a b. rpc h a b = Returned (rangeLogs chain a b) \<or>
                     (\<exists>m. rpc h a b = Thrown m \<and> batchTooLarge m \<and> a < b)"
  shows "1 \<le> batchSize \<Longrightarrow>
         \<exists>queried'. fetchLogs_loop rpc toBlock batchSize currentFrom allLogs queried =
            Some (Returned (allLogs @ rangeLogs chain currentFrom toBlock), queried')"
proof (induction "nat (toBlock - currentFrom + 1)"
       arbitrary: toBlock batchSize currentFrom allLogs queried rule: less_induct)
  case less
  show ?case
  proof (cases "currentFrom \<le> toBlock")
    case False
    then show ?thesis
      by (subst fetchLogs_loop.simps) (simp add: rangeLogs_empty)
  next
    case True
    define currentTo where "currentTo = min (currentFrom + batchSize - 1) toBlock"
    define queried1 where "queried1 = queried @ [(currentFrom, currentTo)]"
    from True less.prems have bounds: "currentFrom \<le> currentTo" "currentTo \<le> toBlock"
      by (simp_all add: currentTo_def)
    have rest: "\<exists>queried'. fetchLogs_loop rpc toBlock batchSize (currentTo + 1) acc q =
                  Some (Returned (acc @ rangeLogs chain (currentTo + 1) toBlock), queried')" for acc q
      using bounds less.prems by (intro less.hyps) simp_all
    from honest[of queried currentFrom currentTo] show ?thesis
    proof (elim disjE exE conjE)
      assume ok: "rpc queried currentFrom currentTo = Returned (rangeLogs chain currentFrom currentTo)"
      from rest[of "allLogs @ rangeLogs chain currentFrom currentTo" queried1]
      obtain queried' where
        "fetchLogs_loop rpc toBlock batchSize (currentTo + 1)
           (allLogs @ rangeLogs chain currentFrom currentTo) queried1 =
         Some (Returned ((allLogs @ rangeLogs chain currentFrom currentTo) @
                 rangeLogs chain (currentTo + 1) toBlock), queried')"
        by blast
      moreover have "rangeLogs chain currentFrom currentTo @ rangeLogs chain (currentTo + 1) toBlock =
                       rangeLogs chain currentFrom toBlock"
        using bounds by (intro rangeLogs_append) simp_all
      ultimately show ?thesis
        using True ok
        by (subst fetchLogs_loop.simps)
           (simp add: Let_def currentTo_def[symmetric] queried1_def[symmetric])
    next
      fix m
      assume err: "rpc queried currentFrom currentTo = Thrown m"
        and large: "batchTooLarge m" and two: "currentFrom < currentTo"
      define halfBatch where "halfBatch = (currentTo - currentFrom + 1) div 2"
      from two have half: "1 \<le> halfBatch" "currentFrom + halfBatch - 1 < currentTo"
        by (simp_all add: halfBatch_def)
      from half bounds
      obtain queried2 where first:
        "fetchLogs_loop rpc (currentFrom + halfBatch - 1) halfBatch currentFrom [] queried1 =
           Some (Returned ([] @ rangeLogs chain currentFrom (currentFrom + halfBatch - 1)), queried2)"
        using less.hyps[of "currentFrom + halfBatch - 1" currentFrom halfBatch "[]" queried1]
        by auto
      from half bounds
      obtain queried3 where second:
        "fetchLogs_loop rpc currentTo halfBatch (currentFrom + halfBatch) [] queried2 =
           Some (Returned ([] @ rangeLogs chain (currentFrom + halfBatch) currentTo), queried3)"
        using less.hyps[of currentTo "currentFrom + halfBatch" halfBatch "[]" queried2]
        by auto
      have halves: "rangeLogs chain currentFrom (currentFrom + halfBatch - 1) @
                    rangeLogs chain (currentFrom + halfBatch) currentTo =
                    rangeLogs chain currentFrom currentTo"
        using rangeLogs_append[of currentFrom "currentFrom + halfBatch - 1" currentTo chain] half
        by simp
      from rest[of "allLogs @ rangeLogs chain currentFrom currentTo" queried3]
      obtain queried' where
        "fetchLogs_loop rpc toBlock batchSize (currentTo + 1)
           (allLogs @ rangeLogs chain currentFrom currentTo) queried3 =
         Some (Returned ((allLogs @ rangeLogs chain currentFrom currentTo) @
                 rangeLogs chain (currentTo + 1) toBlock), queried')"
        by blast
      moreover have "rangeLogs chain currentFrom currentTo @ rangeLogs chain (currentTo + 1) toBlock =
                       rangeLogs chain currentFrom toBlock"
        using bounds by (intro rangeLogs_append) simp_all
      ultimately show ?thesis
        using True err large first second halves
        by (subst fetchLogs_loop.simps)
           (simp add: Let_def currentTo_def[symmetric] queried1_def[symmetric]
              halfBatch_def[symmetric])
    qed
  qed
qed

text \<open>
  Claim C1, amended. For every block range, every batch size of at least one block and
  every provider whose errors are all "too large" refusals of ranges of at least two
  blocks (at any depth of the recursion, and whatever was queried before), \<open>fetchLogs\<close>
  returns, and the list it returns is exactly the list a single query over the whole
  range would have returned: every log once, in block order.
\<close>

theorem fetchLogs_complete:
  assumes "\<forall>h a b. rpc h a b = Returned (rangeLogs chain a b) \<or>
                   (\<exists>m. rpc h a b = Thrown m \<and> batchTooLarge m \<and> a < b)"
    and "1 \<le> batchSize"
  shows "\<exists>queried'. fetchLogs rpc fromBlock toBlock batchSize queried =
           Some (Returned (rangeLogs chain fromBlock toBlock), queried')"
proof -
  from assms(1) have honest: "\<And>h a b. rpc h a b = Returned (rangeLogs chain a b) \<or>
                     (\<exists>m. rpc h a b = Thrown m \<and> batchTooLarge m \<and> a < b)"
    by blast
  from fetchLogs_loop_complete[of rpc chain batchSize toBlock fromBlock "[]" queried, OF honest assms(2)]
  show ?thesis by (simp add: fetchLogs_def)
qed

lemma batchTooLarge_example: "batchTooLarge ''query returned more than 10000 results''"
  by (simp add: batchTooLarge_def)

theorem fetchLogs_complete_witness:
  "(\<forall>h a b. limit3_provider h a b = Returned (rangeLogs (\<lambda>n. [n]) a b) \<or>
             (\<exists>m. limit3_provider h a b = Thrown m \<and> batchTooLarge m \<and> a < b)) \<and>
   (1::int) \<le> 5000 \<and>
   (\<exists>queried'. fetchLogs limit3_provider 100 109 5000 [] =
      Some (Returned (rangeLogs (\<lambda>n. [n]) 100 109), queried')) \<and>
   fetchLogs limit3_provider 100 109 5000 [] =
     Some (Returned [100, 101, 102, 103, 104, 105, 106, 107, 108, 109],
           [(100, 109), (100, 104), (100, 101), (102, 103), (104, 104), (105, 109),
            (105, 106), (107, 108), (109, 109)])"
proof -
  have h: "\<forall>h a b. limit3_provider h a b = Returned (rangeLogs (\<lambda>n. [n]) a b) \<or>
             (\<exists>m. limit3_provider h a b = Thrown m \<and> batchTooLarge m \<and> a < b)"
    using batchTooLarge_example by (auto simp: limit3_provider_def)
  have b: "(1::int) \<le> 5000" by simp
  have e: "fetchLogs limit3_provider 100 109 5000 [] =
     Some (Returned [100, 101, 102, 103, 104, 105, 106, 107, 108, 109],
           [(100, 109), (100, 104), (100, 101), (102, 103), (104, 104), (105, 109),
            (105, 106), (107, 108), (109, 109)])"
    by code_simp
  from fetchLogs_complete[OF h b, of 100 109 "[]"] h b e show ?thesis
    by blast
qed

text \<open>
  The claim as stated fails when the provider refuses a range of a single block: the
  batch is then halved to zero blocks, the second recursive call asks for the empty range
  below its first block and starts again at the same block, for ever.
\<close>

lemma fetchLogs_loop_block100:
  assumes "fetchLogs_loop rpc toBlock batchSize currentFrom allLogs queried = Some y"
  shows "\<not> (rpc = block100_provider \<and> toBlock = 100 \<and> batchSize = 0 \<and> currentFrom = 100)"
  apply (rule fetchLogs_loop.raw_induct[where
           P = "\<lambda>rpc toBlock batchSize currentFrom allLogs queried y.
                  \<not> (rpc = block100_provider \<and> toBlock = 100 \<and> batchSize = 0 \<and> currentFrom = 100)",
           OF _ assms])
  subgoal premises prems for loop rpc toBlock batchSize currentFrom allLogs queried y
  proof
    assume s: "rpc = block100_provider \<and> toBlock = 100 \<and> batchSize = 0 \<and> currentFrom = 100"
    with prems(2) have "loop block100_provider 100 0 100 allLogs (queried @ [(100, 99)]) = Some y"
      by (simp add: block100_provider_def rangeLogs_def)
    from prems(1)[OF this] show False by simp
  qed
  done

theorem fetchLogs_single_block_counterexample:
  "block100_provider [] 100 100 = Thrown ''query returned more than 10000 results'' \<and>
   batchTooLarge ''query returned more than 10000 results'' \<and>
   fetchLogs block100_provider 100 100 5000 [] = None"
proof -
  have stuck: "fetchLogs_loop block100_provider 100 0 100 [] q = None" for q
    using fetchLogs_loop_block100[of block100_provider 100 0 100 "[]" q]
    by (cases "fetchLogs_loop block100_provider 100 0 100 [] q") auto
  have first: "fetchLogs_loop block100_provider 99 0 100 [] q = Some (Returned [], q)" for q
    by (subst fetchLogs_loop.simps) simp
  have "fetchLogs block100_provider 100 100 5000 [] = None"
    unfolding fetchLogs_def
    by (subst fetchLogs_loop.simps)
       (simp add: block100_provider_def batchTooLarge_example first stuck)
  then show ?thesis
    by (simp add: block100_provider_def batchTooLarge_example)
qed

text \<open>
  Claim C5. Without provider errors, a range of exactly 12,000 blocks fetched with a batch
  size of 5,000 is covered by exactly three queries, of 5,000, 5,000 and 2,000 blocks:
  each starts one block after the end of the one before, the first starts at
  \<open>fromBlock\<close> and the last ends at \<open>toBlock\<close>. The logs returned are the answers to the
  three queries, in that order.
\<close>

theorem fetchLogs_three_queries:
  "fetchLogs (\<lambda>h a b. Returned (answer h a b)) fromBlock (fromBlock + 11999) 5000 [] =
     Some (Returned
             (answer [] fromBlock (fromBlock + 4999) @
              answer [(fromBlock, fromBlock + 4999)] (fromBlock + 5000) (fromBlock + 9999) @
              answer [(fromBlock, fromBlock + 4999), (fromBlock + 5000, fromBlock + 9999)]
                (fromBlock + 10000) (fromBlock + 11999)),
           [(fromBlock, fromBlock + 4999),
            (fromBlock + 5000, fromBlock + 9999),
            (fromBlock + 10000, fromBlock + 11999)])"
  unfolding fetchLogs_def
  apply (subst fetchLogs_loop.simps, simp add: Let_def)
  apply (subst fetchLogs_loop.simps, simp add: Let_def)
  apply (subst fetchLogs_loop.simps, simp add: Let_def)
  apply (subst fetchLogs_loop.simps, simp add: Let_def add.commute)
  done

section \<open>Properties of the ranking\<close>

lemma mset_js_insert: "mset (js_insert below x ys) = add_mset x (mset ys)"
  by (induction ys) simp_all

lemma set_js_insert: "set (js_insert below x ys) = insert x (set ys)"
  by (induction ys) auto

lemma sorted_js_insert:
  fixes f :: "'a \<Rightarrow> 'k::linorder"
  shows "sorted (map f ys) \<Longrightarrow> sorted (map f (js_insert (\<lambda>a b. f a < f b) x ys))"
  by (induction ys) (auto simp: set_js_insert)

lemma filter_js_insert:
  fixes f :: "'a \<Rightarrow> 'k::linorder"
  assumes "sorted (map f ys)"
  shows "filter (\<lambda>y. f y = k) (js_insert (\<lambda>a b. f a < f b) x ys) =
           filter (\<lambda>y. f y = k) ys @ (if f x = k then [x] else [])"
  using assms
proof (induction ys)
  case Nil
  then show ?case by simp
next
  case (Cons y ys)
  show ?case
  proof (cases "f x < f y")
    case True
    with Cons.prems have "\<forall>z\<in>set (y # ys). f x < f z" by auto
    then have "filter (\<lambda>z. f z = f x) (y # ys) = []"
      by (auto simp: filter_empty_conv)
    with True show ?thesis by auto
  next
    case False
    with Cons show ?thesis by simp
  qed
qed

lemma js_sort_foldl:
  fixes f :: "'a \<Rightarrow> 'k::linorder"
  assumes "sorted (map f acc)"
  shows "sorted (map f (foldl (\<lambda>sorted x. js_insert (\<lambda>a b. f a < f b) x sorted) acc xs)) \<and>
         mset (foldl (\<lambda>sorted x. js_insert (\<lambda>a b. f a < f b) x sorted) acc xs) = mset acc + mset xs \<and>
         (\<forall>k. filter (\<lambda>y. f y = k) (foldl (\<lambda>sorted x. js_insert (\<lambda>a b. f a < f b) x sorted) acc xs) =
              filter (\<lambda>y. f y = k) acc @ filter (\<lambda>y. f y = k) xs)"
  using assms
proof (induction xs arbitrary: acc)
  case Nil
  then show ?case by simp
next
  case (Cons x xs)
  from Cons.prems have s: "sorted (map f (js_insert (\<lambda>a b. f a < f b) x acc))"
    by (rule sorted_js_insert)
  from Cons.IH[OF s] show ?case
    by (simp add: mset_js_insert filter_js_insert[OF Cons.prems])
qed

lemma js_sort_is_sort_key:
  fixes f :: "'a \<Rightarrow> 'k::linorder"
  shows "js_sort (\<lambda>a b. f a < f b) xs = sort_key f xs"
proof -
  let ?ys = "js_sort (\<lambda>a b. f a < f b) xs"
  from js_sort_foldl[of f "[]" xs]
  have s: "sorted (map f ?ys)" and m: "mset ?ys = mset xs"
    and k: "\<And>k. filter (\<lambda>y. f y = k) ?ys = filter (\<lambda>y. f y = k) xs"
    by (simp_all add: js_sort_def)
  have "filter (\<lambda>x. f k = f x) ?ys = filter (\<lambda>x. f k = f x) xs" for k
    using k[of "f k"] by (simp add: eq_commute)
  with m s show ?thesis
    by (intro properties_for_sort_key[symmetric]) simp_all
qed

lemma js_slice_take: "js_slice 0 (int n) xs = take n xs"
  by (simp add: js_slice_def min_def)

lemma topDelegators_sort_key:
  fixes stakes :: "('n::linordered_ab_group_add, 'm) address_stake_scheme list"
  shows "map snd (topDelegators (int n) stakes) =
           take n (sort_key (\<lambda>stake. - netStake stake) (filter (\<lambda>stake. 0 < netStake stake) stakes))"
proof -
  let ?positive = "filter (\<lambda>stake. 0 < netStake stake) stakes"
  have "js_sort (\<lambda>a b. netStake b - netStake a < 0) ?positive =
        js_sort (\<lambda>a b. - netStake a < - netStake b) ?positive"
    by simp
  also have "\<dots> = sort_key (\<lambda>stake. - netStake stake) ?positive"
    by (rule js_sort_is_sort_key)
  finally have sorted: "js_sort (\<lambda>a b. netStake b - netStake a < 0) ?positive =
                sort_key (\<lambda>stake. - netStake stake) ?positive" .
  show ?thesis
    unfolding topDelegators_def map_snd_enumerate sorted js_slice_take ..
qed

lemma sorted_by_netStake:
  fixes ys :: "('n::linordered_ab_group_add, 'm) address_stake_scheme list"
  shows "sorted (map (\<lambda>stake. - netStake stake) ys) = sorted_wrt (\<lambda>a b. netStake b \<le> netStake a) ys"
  by (simp add: sorted_map)

text \<open>
  Claim C8, amended. The ranking keeps the entries with a positive net stake, sorts them
  by net stake in descending order with a stable sort, numbers them from 1 and keeps the
  first N. The address is never compared: entries with equal net stake stay in the order
  of \<open>Object.values(addressStakes)\<close>, the order in which their addresses were first
  seen. (\<open>sort_key\<close> is the stable insertion sort of the library.)
\<close>

theorem topDelegators_ranking:
  fixes stakes :: "('n::linordered_ab_group_add, 'm) address_stake_scheme list"
  shows "map snd (topDelegators (int n) stakes) =
           take n (sort_key (\<lambda>stake. - netStake stake)
                     (filter (\<lambda>stake. 0 < netStake stake) stakes)) \<and>
         map fst (topDelegators (int n) stakes) = [1..<Suc (length (topDelegators (int n) stakes))] \<and>
         sorted_wrt (\<lambda>a b. netStake b \<le> netStake a) (map snd (topDelegators (int n) stakes)) \<and>
         length (topDelegators (int n) stakes) \<le> n \<and>
         (\<forall>v. filter (\<lambda>stake. netStake stake = v)
                (map snd (topDelegators (int (length stakes)) stakes)) =
              filter (\<lambda>stake. netStake stake = v \<and> 0 < v) stakes)"
proof -
  let ?key = "\<lambda>stake :: ('n, 'm) address_stake_scheme. - netStake stake"
  let ?positive = "filter (\<lambda>stake. 0 < netStake stake) stakes"
  have top: "map snd (topDelegators (int m) stakes) = take m (sort_key ?key ?positive)" for m
    by (rule topDelegators_sort_key)
  have ranks: "map fst (topDelegators (int n) stakes) = [1..<Suc (length (topDelegators (int n) stakes))]"
    by (simp add: topDelegators_def map_fst_enumerate)
  have "sorted (map ?key (sort_key ?key ?positive))"
    by (rule sorted_sort_key)
  then have "sorted (take n (map ?key (sort_key ?key ?positive)))"
    by (rule sorted_wrt_take)
  then have "sorted (map ?key (take n (sort_key ?key ?positive)))"
    by (simp only: take_map)
  then have desc: "sorted_wrt (\<lambda>a b. netStake b \<le> netStake a) (map snd (topDelegators (int n) stakes))"
    by (simp only: top sorted_by_netStake)
  have "length (map snd (topDelegators (int n) stakes)) \<le> n"
    by (simp only: top) simp
  then have len: "length (topDelegators (int n) stakes) \<le> n"
    by simp
  have ties: "filter (\<lambda>stake. netStake stake = v)
                (map snd (topDelegators (int (length stakes)) stakes)) =
              filter (\<lambda>stake. netStake stake = v \<and> 0 < v) stakes" for v
  proof -
    have "length (sort_key ?key ?positive) \<le> length stakes"
      by simp
    then have "map snd (topDelegators (int (length stakes)) stakes) = sort_key ?key ?positive"
      by (simp only: top take_all)
    moreover have "filter (\<lambda>stake. ?key stake = - v) (sort_key ?key ?positive) =
                   filter (\<lambda>stake. ?key stake = - v) ?positive"
      by (rule sort_key_stable)
    moreover have "filter (\<lambda>stake. netStake stake = v) ?positive =
                   filter (\<lambda>stake. netStake stake = v \<and> 0 < v) stakes"
      by (induction stakes) auto
    ultimately show ?thesis by (simp only: neg_equal_iff_equal)
  qed
  show ?thesis
  proof (intro conjI allI)
    show "map snd (topDelegators (int n) stakes) = take n (sort_key ?key ?positive)"
      by (rule top)
  qed (rule ranks desc len ties)+
qed

text \<open>
  The claim as stated fails on a tie: of two entries with the same net stake, the one
  seen first stays first, although its address is the greater string.
\<close>

theorem tie_break_counterexample:
  "netStake stake_b = netStake stake_a \<and>
   map (\<lambda>entry. stake_address (snd entry)) (topDelegators 10 [stake_b, stake_a]) =
     [''0xbbbbbbbbbbbbbbbbbbbbbbbbbbbbbbbbbbbbbbbb'', ''0xaaaaaaaaaaaaaaaaaaaaaaaaaaaaaaaaaaaaaaaa'']"
  by code_simp

section \<open>Properties of the check of the API key\<close>

lemma key_unset: "keyNotConfigured (etherscanApiKey None)"
  by (simp add: keyNotConfigured_def etherscanApiKey_def)

lemma key_placeholder: "keyNotConfigured (etherscanApiKey (Some ''YourApiKeyToken''))"
  by (simp add: keyNotConfigured_def etherscanApiKey_def)

lemma fetchDelegationEvents_not_configured:
  assumes "keyNotConfigured (etherscanApiKey env)"
  shows "fetchDelegationEvents queryEtherscan env args =
           ([ConsoleWarn ''Etherscan API key not configured. Cannot fetch Ethereum delegation data.''],
            Returned [])"
  using assms by (simp add: fetchDelegationEvents_def)

lemma fetchRecentDelegations_not_configured:
  assumes "keyNotConfigured (etherscanApiKey env)"
  shows "fetchRecentDelegations queryEtherscan env response hours timeRange =
           ([ConsoleLog (''Fetching new delegations in the last '' @ toString hours @ '' hours...''),
             ConsoleLog (''Time range: '' @ timeRange),
             ConsoleLog ''Querying Ethereum for ShareMinted events...''] @
            fst (fetchAllValidators response) @
            (if snd (fetchAllValidators response) = [] then []
             else [ConsoleError ''ETHERSCAN_API_KEY not configured. This is required to fetch delegation data.'',
                   ConsoleError ''Please set ETHERSCAN_API_KEY in your .env file or environment variables.'']),
            Returned [])"
  using assms by (simp add: fetchRecentDelegations_def Let_def case_prod_unfold)

lemma fetchAllValidators_requests:
  "filter isHttpGet (fst (fetchAllValidators response)) = [HttpGet validatorsUrl]"
  by (cases response) (simp_all add: fetchAllValidators_def isHttpGet_def)

text \<open>
  Claim C9, amended. When the key is not set, or is the placeholder,
  \<open>fetchDelegationEvents\<close> prints one warning, makes no request and returns an empty
  list. \<open>fetchRecentDelegations\<close> first asks the staking API, which needs no key, for the
  validators: that one request is the only one it makes, it prints the two lines about
  the key when the list of validators is not empty, and it returns an empty list in
  either case. Neither of the two throws.
\<close>

theorem missing_key_returns_empty:
  "(env = None \<or> env = Some ''YourApiKeyToken'') \<longrightarrow>
   fetchDelegationEvents queryEtherscan env args =
     ([ConsoleWarn ''Etherscan API key not configured. Cannot fetch Ethereum delegation data.''],
      Returned []) \<and>
   snd (fetchRecentDelegations queryEtherscan' env response hours timeRange) = Returned [] \<and>
   filter isHttpGet (fst (fetchRecentDelegations queryEtherscan' env response hours timeRange)) =
     [HttpGet validatorsUrl] \<and>
   fst (fetchRecentDelegations queryEtherscan' env response hours timeRange) =
     [ConsoleLog (''Fetching new delegations in the last '' @ toString hours @ '' hours...''),
      ConsoleLog (''Time range: '' @ timeRange),
      ConsoleLog ''Querying Ethereum for ShareMinted events...''] @
     fst (fetchAllValidators response) @
     (if snd (fetchAllValidators response) = [] then []
      else [ConsoleError ''ETHERSCAN_API_KEY not configured. This is required to fetch delegation data.'',
            ConsoleError ''Please set ETHERSCAN_API_KEY in your .env file or environment variables.''])"
proof
  assume "env = None \<or> env = Some ''YourApiKeyToken''"
  then have k: "keyNotConfigured (etherscanApiKey env)"
    using key_unset key_placeholder by auto
  have r: "filter isHttpGet (fst (fetchRecentDelegations queryEtherscan' env response hours timeRange)) =
             [HttpGet validatorsUrl]"
    by (simp add: fetchRecentDelegations_not_configured[OF k] fetchAllValidators_requests isHttpGet_def)
  show "fetchDelegationEvents queryEtherscan env args =
     ([ConsoleWarn ''Etherscan API key not configured. Cannot fetch Ethereum delegation data.''],
      Returned []) \<and>
   snd (fetchRecentDelegations queryEtherscan' env response hours timeRange) = Returned [] \<and>
   filter isHttpGet (fst (fetchRecentDelegations queryEtherscan' env response hours timeRange)) =
     [HttpGet validatorsUrl] \<and>
   fst (fetchRecentDelegations queryEtherscan' env response hours timeRange) =
     [ConsoleLog (''Fetching new delegations in the last '' @ toString hours @ '' hours...''),
      ConsoleLog (''Time range: '' @ timeRange),
      ConsoleLog ''Querying Ethereum for ShareMinted events...''] @
     fst (fetchAllValidators response) @
     (if snd (fetchAllValidators response) = [] then []
      else [ConsoleError ''ETHERSCAN_API_KEY not configured. This is required to fetch delegation data.'',
            ConsoleError ''Please set ETHERSCAN_API_KEY in your .env file or environment variables.''])"
    using r by (simp add: fetchDelegationEvents_not_configured[OF k]
        fetchRecentDelegations_not_configured[OF k])
qed

theorem missing_key_returns_empty_witness:
  "fetchDelegationEvents (\<lambda>key args. ([HttpGet ''https://api.etherscan.io/api''], [()])) None () =
     ([ConsoleWarn ''Etherscan API key not configured. Cannot fetch Ethereum delegation data.''],
      Returned []) \<and>
   snd (fetchRecentDelegations (\<lambda>key validators. ([HttpGet ''https://api.etherscan.io/v2/api''], Returned [()]))
          None (Returned [''validator 1'', ''validator 2'']) 48 ''today'') = Returned [] \<and>
   filter isHttpGet
     (fst (fetchRecentDelegations (\<lambda>key validators. ([HttpGet ''https://api.etherscan.io/v2/api''], Returned [()]))
             None (Returned [''validator 1'', ''validator 2'']) 48 ''today'')) =
     [HttpGet validatorsUrl]"
proof -
  have h: "(None :: string option) = None \<or> (None :: string option) = Some ''YourApiKeyToken''"
    by simp
  note t = missing_key_returns_empty[of None
          "\<lambda>key args. ([HttpGet ''https://api.etherscan.io/api''], [()])" "()"
          "\<lambda>key validators. ([HttpGet ''https://api.etherscan.io/v2/api''], Returned [()])"
          "Returned [''validator 1'', ''validator 2'']" 48 "''today''", THEN mp, OF h]
  from t show ?thesis by blast
qed

text \<open>
  The claim as stated fails for \<open>fetchRecentDelegations\<close>: with the key unset it sends
  the request for the validators before it looks at the key.
\<close>

theorem request_before_check_counterexample:
  "fst (fetchRecentDelegations (\<lambda>key validators. ([], Returned [()])) None
          (Returned [''validator 1'']) 48 ''today'') =
     [ConsoleLog ''Fetching new delegations in the last 48 hours...'',
      ConsoleLog ''Time range: today'',
      ConsoleLog ''Querying Ethereum for ShareMinted events...'',
      ConsoleLog ''Fetching all validators...'',
      HttpGet ''https://staking-api.polygon.technology/api/v2/validators'',
      ConsoleLog ''Found 1 validators'',
      ConsoleError ''ETHERSCAN_API_KEY not configured. This is required to fetch delegation data.'',
      ConsoleError ''Please set ETHERSCAN_API_KEY in your .env file or environment variables.'']"
  by code_simp

section \<open>Properties of the sums per address\<close>
















end
